theory Spec2Isabelle
  imports Complex_Main
begin

section \<open>The itinerary aggregate (models/Itinerary.js)\<close>

text \<open>
  Documents are modelled as records, the Mongoose methods as functions from the document
  to the mutated document. JavaScript numbers that hold counts, minutes and order indices
  are modelled as \<open>int\<close>; dates are modelled as \<open>nat\<close> (a clock reading passed in where the
  source calls \<open>new Date()\<close> or \<open>Date.now\<close>); ObjectIds are compared through their string
  form, as the source does with \<open>toString()\<close>.
\<close>

type_synonym objectId = string
type_synonym date = nat

text \<open>One entry of the \<open>places\<close> sub-document array, after Mongoose has cast it.\<close>

record place_entry =
  placeId :: string
  name :: "string option"
  category :: "string option"
  order :: int
  estimatedDuration :: int
  place_notes :: "string option"
  isVisited :: bool
  rating :: "int option"

text \<open>
  A plain object handed to Mongoose for such an entry (the argument of \<open>addPlace\<close>, an
  element of the \<open>places\<close> array of an update or create call). Fields that the schema gives
  a default may be absent.
\<close>

record place_data =
  pd_placeId :: string
  pd_name :: "string option"
  pd_category :: "string option"
  pd_order :: int
  pd_estimatedDuration :: "int option"
  pd_notes :: "string option"
  pd_isVisited :: "bool option"
  pd_rating :: "int option"

record like_entry =
  like_user :: objectId
  likedAt :: date

record itinerary =
  itin_id :: objectId
  user :: objectId
  title :: string
  description :: "string option"
  itype :: string
  mood :: string
  purpose :: string
  coordinates :: "string list"
  city :: "string option"
  country :: "string option"
  places :: "place_entry list"
  totalDuration :: int
  totalDistance :: int
  estimatedCost :: int
  tags :: "string list"
  isPublic :: bool
  isCompleted :: bool
  completedAt :: "date option"
  aiGenerated :: bool
  aiPrompt :: "string option"
  likes :: "like_entry list"
  shares :: int

text \<open>
  Casting a plain object to a sub-document applies the schema defaults,
  \<open>estimatedDuration\<close> 60 and \<open>isVisited\<close> false, and drops every key that is not in the
  schema.
\<close>

definition castPlace :: "'a place_data_scheme \<Rightarrow> place_entry" where
  "castPlace d =
     \<lparr>placeId = pd_placeId d,
      name = pd_name d,
      category = pd_category d,
      order = pd_order d,
      estimatedDuration = (case pd_estimatedDuration d of None \<Rightarrow> 60 | Some m \<Rightarrow> m),
      place_notes = pd_notes d,
      isVisited = (case pd_isVisited d of None \<Rightarrow> False | Some v \<Rightarrow> v),
      rating = pd_rating d\<rparr>"

text \<open>
  \<open>this.places.length > 0 ? Math.max(...this.places.map(p => p.order)) : 0\<close>
\<close>

fun maxOrder :: "place_entry list \<Rightarrow> int" where
  "maxOrder [] = 0"
| "maxOrder (p # ps) = fold max (map order ps) (order p)"

text \<open>
  \<open>updateTotals\<close>: \<open>this.places.reduce((total, place) => total + place.estimatedDuration, 0)\<close>.
\<close>

definition updateTotals :: "itinerary \<Rightarrow> itinerary" where
  "updateTotals it =
     it\<lparr>totalDuration := foldl (\<lambda>total place. total + estimatedDuration place) 0 (places it)\<rparr>"

definition addPlace :: "place_data \<Rightarrow> itinerary \<Rightarrow> itinerary" where
  "addPlace placeData it =
     updateTotals
       (it\<lparr>places := places it @ [castPlace (placeData\<lparr>pd_order := maxOrder (places it) + 1\<rparr>)]\<rparr>)"

text \<open>\<open>forEach((place, index) => place.order = index + 1)\<close>\<close>

definition reorder :: "place_entry list \<Rightarrow> place_entry list" where
  "reorder ps = map (\<lambda>(index, place). place\<lparr>order := int index + 1\<rparr>) (enumerate 0 ps)"

definition removePlace :: "string \<Rightarrow> itinerary \<Rightarrow> itinerary" where
  "removePlace pid it =
     updateTotals (it\<lparr>places := reorder (filter (\<lambda>place. placeId place \<noteq> pid) (places it))\<rparr>)"

text \<open>
  \<open>markPlaceVisited\<close>: \<open>find\<close> yields the first entry with the given id; only that entry is
  changed. \<open>if (rating)\<close> is false for an absent rating and for 0.
\<close>

fun markFirst :: "string \<Rightarrow> int option \<Rightarrow> place_entry list \<Rightarrow> place_entry list" where
  "markFirst pid r [] = []"
| "markFirst pid r (p # ps) =
     (if placeId p = pid
      then (p\<lparr>isVisited := True,
               rating := (case r of None \<Rightarrow> rating p
                          | Some v \<Rightarrow> if v = 0 then rating p else Some v)\<rparr>) # ps
      else p # markFirst pid r ps)"

definition markPlaceVisited :: "date \<Rightarrow> string \<Rightarrow> int option \<Rightarrow> itinerary \<Rightarrow> itinerary" where
  "markPlaceVisited now pid r it =
     (let it1 = it\<lparr>places := markFirst pid r (places it)\<rparr>
      in if list_all isVisited (places it1)
         then it1\<lparr>isCompleted := True, completedAt := Some now\<rparr>
         else it1)"

text \<open>
  \<open>toggleLike\<close>: a pushed like gets \<open>likedAt\<close> from the schema default \<open>Date.now\<close>.
\<close>

definition toggleLike :: "date \<Rightarrow> objectId \<Rightarrow> itinerary \<Rightarrow> itinerary" where
  "toggleLike now userId it =
     (case find (\<lambda>like. like_user like = userId) (likes it) of
        Some existingLike \<Rightarrow> it\<lparr>likes := filter (\<lambda>like. like_user like \<noteq> userId) (likes it)\<rparr>
      | None \<Rightarrow> it\<lparr>likes := likes it @ [\<lparr>like_user = userId, likedAt = now\<rparr>]\<rparr>)"

text \<open>Sequences of calls of the mutating methods on one document.\<close>

datatype itin_op =
    AddPlace place_data
  | RemovePlace string
  | MarkPlaceVisited date string "int option"

fun apply_op :: "itin_op \<Rightarrow> itinerary \<Rightarrow> itinerary" where
  "apply_op (AddPlace d) it = addPlace d it"
| "apply_op (RemovePlace pid) it = removePlace pid it"
| "apply_op (MarkPlaceVisited now pid r) it = markPlaceVisited now pid r it"

definition apply_ops :: "itin_op list \<Rightarrow> itinerary \<Rightarrow> itinerary" where
  "apply_ops ops it = fold apply_op ops it"

text \<open>
  The order indices of a places list are contiguous: no duplicates, and exactly the
  numbers 1..N for a list of N entries.
\<close>

definition contiguous :: "place_entry list \<Rightarrow> bool" where
  "contiguous ps \<longleftrightarrow>
     distinct (map order ps) \<and> set (map order ps) = {1 .. int (length ps)}"

text \<open>An entry with its order index blanked, to compare entries up to renumbering.\<close>

definition sansOrder :: "place_entry \<Rightarrow> place_entry" where
  "sansOrder p = p\<lparr>order := 0\<rparr>"

section \<open>The itinerary collection and the update controller (controllers/itineraryController.js)\<close>

text \<open>
  The collection is the list of stored documents in natural order. The handlers are
  wrapped by \<open>asyncHandler\<close>, whose source (middleware/errorHandler.js) is not part of the
  modelled files: a rejection inside a handler is the response \<open>Thrown\<close>, carrying the error,
  whatever the error middleware then sends.
\<close>

type_synonym collection = "itinerary list"

datatype error =
    ValidationError
  | TypeError
  | FailedToSearchPlaces
  | FailedToGenerateItinerary

datatype response =
    Json (status: nat) (success: bool) (message: string) (payload: "itinerary option")
  | Thrown error

text \<open>\<open>Itinerary.findOne({ _id: id, user: req.user._id })\<close>\<close>

definition findOne :: "objectId \<Rightarrow> objectId \<Rightarrow> collection \<Rightarrow> itinerary option" where
  "findOne iid uid coll = find (\<lambda>d. itin_id d = iid \<and> user d = uid) coll"

text \<open>Writing a loaded document back replaces the stored document with the same \<open>_id\<close>.\<close>

definition save :: "itinerary \<Rightarrow> collection \<Rightarrow> collection" where
  "save it coll = map (\<lambda>d. if itin_id d = itin_id it then it else d) coll"

text \<open>The \<open>trim: true\<close> setter of the schema's string fields (ASCII white space).\<close>

definition isSpace :: "char \<Rightarrow> bool" where
  "isSpace c \<longleftrightarrow> c \<in> set [CHR '' '', CHR 0x09, CHR 0x0A, CHR 0x0B, CHR 0x0C, CHR 0x0D]"

definition trim :: "string \<Rightarrow> string" where
  "trim s = rev (dropWhile isSpace (rev (dropWhile isSpace s)))"

record update_body =
  b_title :: "string option"
  b_description :: "string option"
  b_places :: "place_data list option"
  b_isPublic :: "bool option"

text \<open>
  The block "Update fields" of \<open>updateItinerary\<close>. \<open>if (title)\<close> and \<open>if (description)\<close>
  are false for an absent field and for the empty string; \<open>if (places)\<close> is true for every
  array, the empty one included.
\<close>

definition updateFields :: "update_body \<Rightarrow> itinerary \<Rightarrow> itinerary" where
  "updateFields body it =
     (let it1 = (case b_title body of
                   None \<Rightarrow> it
                 | Some t \<Rightarrow> if t = [] then it else it\<lparr>title := trim t\<rparr>);
          it2 = (case b_description body of
                   None \<Rightarrow> it1
                 | Some d \<Rightarrow> if d = [] then it1 else it1\<lparr>description := Some (trim d)\<rparr>);
          it3 = (case b_places body of
                   None \<Rightarrow> it2
                 | Some ps \<Rightarrow> updateTotals (it2\<lparr>places := map castPlace ps\<rparr>))
      in (case b_isPublic body of
            None \<Rightarrow> it3
          | Some b \<Rightarrow> it3\<lparr>isPublic := b\<rparr>))"

text \<open>
  \<open>updateItinerary\<close>. The first argument stands for Mongoose's validation of the document
  against the schema when it is saved (required, enum, maxlength, min and max): a document
  that fails it is not written and the promise rejects.
\<close>

definition updateItinerary ::
  "(itinerary \<Rightarrow> bool) \<Rightarrow> objectId \<Rightarrow> objectId \<Rightarrow> update_body \<Rightarrow> collection
     \<Rightarrow> response \<times> collection" where
  "updateItinerary valid uid iid body coll =
     (case findOne iid uid coll of
        None \<Rightarrow> (Json 404 False ''Itinerary not found'' None, coll)
      | Some it \<Rightarrow>
          (let it' = updateFields body it
           in if valid it'
              then (Json 200 True ''Itinerary updated successfully'' (Some it'), save it' coll)
              else (Thrown ValidationError, coll)))"

text \<open>The validators that the itinerary schema declares on the modelled fields.\<close>

definition schemaValid :: "itinerary \<Rightarrow> bool" where
  "schemaValid d \<longleftrightarrow>
     user d \<noteq> [] \<and> title d \<noteq> [] \<and> length (title d) \<le> 100
     \<and> (case description d of None \<Rightarrow> True | Some t \<Rightarrow> length t \<le> 500)
     \<and> itype d \<in> set [''morning'', ''afternoon'', ''evening'', ''night'', ''full-day'', ''custom'']
     \<and> mood d \<in> set [''relaxed'', ''energetic'', ''romantic'', ''adventurous'', ''social'',
                       ''productive'', ''cultural'']
     \<and> purpose d \<in> set [''work'', ''relax'', ''explore'', ''dine'', ''nightlife'', ''culture'',
                          ''shopping'', ''outdoor'']
     \<and> list_all (\<lambda>p. placeId p \<noteq> []
                      \<and> (case rating p of None \<Rightarrow> True | Some r \<Rightarrow> 1 \<le> r \<and> r \<le> 5))
          (places d)"

section \<open>The place cache (models/Place.js)\<close>

text \<open>
  The cached projection of a provider place. Only the fields that the modelled functions
  read are kept; the address, contact, social, hours and attribute fields are copied by
  \<open>cachePlace\<close> in the same way as the ones below. JavaScript numbers that are multiplied
  by decimal fractions are modelled as \<open>real\<close>, so the arithmetic is exact.
\<close>

record place_stats =
  totalPhotos :: "real option"
  totalTips :: "real option"
  totalCheckins :: "real option"

record place =
  foursquareId :: string
  place_name :: "string option"
  place_description :: string
  place_category :: string
  place_categories :: "string list"
  place_price :: real
  place_rating :: "real option"
  stats :: place_stats
  popularity :: real

text \<open>\<open>x || 0\<close> on a number that may be absent.\<close>

definition orZero :: "real option \<Rightarrow> real" where
  "orZero x = (case x of None \<Rightarrow> 0 | Some v \<Rightarrow> v)"

definition updatePopularity :: "place \<Rightarrow> place" where
  "updatePopularity p =
     (let checkins = orZero (totalCheckins (stats p));
          tips = orZero (totalTips (stats p));
          photos = orZero (totalPhotos (stats p));
          rating = orZero (place_rating p)
      in p\<lparr>popularity := (checkins * 0.4) + (tips * 0.3) + (photos * 0.2) + (rating * 0.1)\<rparr>)"

section \<open>The places gateway (services/foursquareService.js)\<close>

text \<open>
  A place as the provider sends it. \<open>formatPlace\<close> is applied both to provider places and to
  cached documents, so it also reads the keys \<open>category\<close> and \<open>popularity\<close>, which a provider
  place need not carry: \<open>cachePlace\<close> derives the category of a provider place from
  \<open>categories[0].name\<close>.
\<close>

record raw_stats =
  total_photos :: "real option"
  total_tips :: "real option"
  total_checkins :: "real option"

record raw_place =
  fsq_id :: string
  raw_name :: "string option"
  raw_description :: "string option"
  raw_category :: "string option"
  raw_categories :: "string list option"
  raw_price :: "real option"
  raw_rating :: "real option"
  raw_stats :: "raw_stats option"
  raw_popularity :: "real option"

text \<open>The result of \<open>formatPlace\<close>, with the fields that callers in this model read.\<close>

record formatted_place =
  fp_id :: "string option"
  fp_name :: "string option"
  fp_description :: "string option"
  fp_category :: "string option"
  fp_categories :: "string list option"
  fp_price :: "real option"
  fp_rating :: "real option"
  fp_popularity :: real

text \<open>
  Truthiness of a string that may be absent (the empty string is falsy), and \<open>a || b\<close>
  with a string default.
\<close>

definition truthy :: "string option \<Rightarrow> bool" where
  "truthy x = (case x of None \<Rightarrow> False | Some s \<Rightarrow> s \<noteq> [])"

definition orString :: "string option \<Rightarrow> string \<Rightarrow> string" where
  "orString x d = (case x of None \<Rightarrow> d | Some s \<Rightarrow> if s = [] then d else s)"

definition formatPlace :: "raw_place \<Rightarrow> formatted_place" where
  "formatPlace p =
     \<lparr>fp_id = (if fsq_id p = [] then None else Some (fsq_id p)),
      fp_name = raw_name p,
      fp_description = raw_description p,
      fp_category = raw_category p,
      fp_categories = raw_categories p,
      fp_price = raw_price p,
      fp_rating = raw_rating p,
      fp_popularity = orZero (raw_popularity p)\<rparr>"

definition formatPlaces :: "raw_place list \<Rightarrow> formatted_place list" where
  "formatPlaces ps = map formatPlace ps"

text \<open>
  The cache is the Place collection keyed by \<open>foursquareId\<close>. \<open>cachePlace\<close> builds the
  document and upserts it; an error of the store is caught and logged, so an unavailable
  store (\<open>storeUp = False\<close>) leaves the cache as it is. A document that is already stored
  keeps its \<open>popularity\<close>, which is not among the written fields; a new one has
  popularity 0.
\<close>

type_synonym cache = "string \<rightharpoonup> place"

definition cachePlace :: "bool \<Rightarrow> raw_place \<Rightarrow> cache \<Rightarrow> cache" where
  "cachePlace storeUp placeData c =
     (if \<not> storeUp then c
      else c(fsq_id placeData \<mapsto>
        \<lparr>foursquareId = fsq_id placeData,
         place_name = raw_name placeData,
         place_description = orString (raw_description placeData) '''',
         place_category = (case raw_categories placeData of
                             None \<Rightarrow> ''Unknown''
                           | Some [] \<Rightarrow> ''Unknown''
                           | Some (n # ns) \<Rightarrow> orString (Some n) ''Unknown''),
         place_categories = (case raw_categories placeData of None \<Rightarrow> [] | Some ns \<Rightarrow> ns),
         place_price = orZero (raw_price placeData),
         place_rating = Some (orZero (raw_rating placeData)),
         stats = (case raw_stats placeData of
                    None \<Rightarrow> \<lparr>totalPhotos = Some 0, totalTips = Some 0, totalCheckins = Some 0\<rparr>
                  | Some st \<Rightarrow> \<lparr>totalPhotos = Some (orZero (total_photos st)),
                                totalTips = Some (orZero (total_tips st)),
                                totalCheckins = Some (orZero (total_checkins st))\<rparr>),
         popularity = (case c (fsq_id placeData) of None \<Rightarrow> 0 | Some old \<Rightarrow> popularity old)\<rparr>))"

text \<open>\<open>for (const place of places) await this.cachePlace(place)\<close>\<close>

definition cachePlaces :: "bool \<Rightarrow> raw_place list \<Rightarrow> cache \<Rightarrow> cache" where
  "cachePlaces storeUp ps c = fold (cachePlace storeUp) ps c"

text \<open>
  The argument of \<open>searchPlaces\<close> and the request that leaves for the provider. An absent
  key takes its default; then every falsy parameter (empty string, 0) is deleted.
\<close>

record search_params =
  query :: "string option"
  near :: "string option"
  ll :: "string option"
  radius :: "int option"
  categories :: "string option"
  limit :: "int option"
  sortMode :: "string option"

definition dropEmpty :: "string \<Rightarrow> string option" where
  "dropEmpty s = (if s = [] then None else Some s)"

definition dropZero :: "int \<Rightarrow> int option" where
  "dropZero n = (if n = 0 then None else Some n)"

definition withDefault :: "'a \<Rightarrow> 'a option \<Rightarrow> 'a" where
  "withDefault d x = (case x of None \<Rightarrow> d | Some v \<Rightarrow> v)"

definition defaultRadius :: int where
  "defaultRadius = 5000"

definition searchParams :: "search_params \<Rightarrow> search_params" where
  "searchParams params =
     \<lparr>query = dropEmpty (withDefault '''' (query params)),
      near = dropEmpty (withDefault '''' (near params)),
      ll = dropEmpty (withDefault '''' (ll params)),
      radius = dropZero (withDefault defaultRadius (radius params)),
      categories = dropEmpty (withDefault '''' (categories params)),
      limit = dropZero (withDefault 20 (limit params)),
      sortMode = dropEmpty (withDefault ''RATING'' (sortMode params))\<rparr>"

text \<open>
  What \<open>this.client.get\<close> does: the provider answers with a body whose \<open>results\<close> key may be
  absent, or the call rejects (network error, error status), or the 10 second timeout of
  the client fires, which rejects as well.
\<close>

datatype provider_outcome =
    Responded "raw_place list option"
  | Rejected
  | TimedOut

type_synonym provider = "search_params \<Rightarrow> provider_outcome"

text \<open>
  \<open>searchPlaces\<close>: every rejection inside the \<open>try\<close> block is rethrown as
  \<open>Error('Failed to search places')\<close>; the cache is written only after the provider
  has answered.
\<close>

definition searchPlaces ::
  "provider \<Rightarrow> bool \<Rightarrow> search_params \<Rightarrow> cache \<Rightarrow> (error + formatted_place list) \<times> cache" where
  "searchPlaces client storeUp params c =
     (case client (searchParams params) of
        Responded results \<Rightarrow>
          (let ps = (case results of None \<Rightarrow> [] | Some rs \<Rightarrow> rs)
           in (Inr (formatPlaces ps), cachePlaces storeUp ps c))
      | Rejected \<Rightarrow> (Inl FailedToSearchPlaces, c)
      | TimedOut \<Rightarrow> (Inl FailedToSearchPlaces, c))"

section \<open>The recommendation gateway (services/openaiService.js)\<close>

text \<open>
  The itinerary skeleton as the controller reads it from the parsed reply: every key may
  be absent. A reply that parses to something else than an object (a number, null) has no
  readable key and behaves, where the controller reads \<open>places\<close>, like a skeleton without
  places.
\<close>

record stub =
  stub_name :: "string option"
  stub_category :: "string option"
  stub_description :: "string option"
  stub_estimatedDuration :: "int option"
  stub_notes :: "string option"

record skeleton =
  sk_title :: "string option"
  sk_description :: "string option"
  sk_type :: "string option"
  sk_mood :: "string option"
  sk_purpose :: "string option"
  sk_places :: "stub list option"
  sk_totalDuration :: "int option"
  sk_estimatedCost :: "int option"
  sk_tags :: "string list option"

text \<open>
  The two shapes that \<open>parseItineraryResponse\<close> returns:
  \<open>{ success: true, itinerary: parsed }\<close> and \<open>{ success: false, error: '...' }\<close>.
\<close>

datatype ai_response =
    AiSuccess skeleton
  | AiFailure string

fun ai_success :: "ai_response \<Rightarrow> bool" where
  "ai_success (AiSuccess parsed) = True"
| "ai_success (AiFailure err) = False"

text \<open>
  \<open>JSON.parse\<close> is a parameter: \<open>None\<close> stands for the SyntaxError it throws on a text that
  is not JSON.
\<close>

definition parseItineraryResponse :: "(string \<Rightarrow> skeleton option) \<Rightarrow> string \<Rightarrow> ai_response" where
  "parseItineraryResponse jsonParse response =
     (case jsonParse response of
        Some parsed \<Rightarrow> AiSuccess parsed
      | None \<Rightarrow> AiFailure ''Failed to generate itinerary'')"

text \<open>
  The services that a generation request talks to: the chat completion of the language
  model for a prompt and a location (\<open>None\<close> when the call rejects), \<open>JSON.parse\<close>, the
  places provider, the state of the cache store, the ObjectId that
  \<open>Itinerary.create\<close> will assign, and the schema validation.
\<close>

record services =
  sv_complete :: "string \<Rightarrow> string \<Rightarrow> string option"
  sv_jsonParse :: "string \<Rightarrow> skeleton option"
  sv_client :: provider
  sv_storeUp :: bool
  sv_newId :: objectId
  sv_valid :: "itinerary \<Rightarrow> bool"

text \<open>
  \<open>openaiService.generateItinerary\<close>: a rejected completion is rethrown as
  \<open>Error('Failed to generate itinerary')\<close>; otherwise the reply text is parsed.
\<close>

definition openai_generateItinerary :: "services \<Rightarrow> string \<Rightarrow> string \<Rightarrow> error + ai_response" where
  "openai_generateItinerary sv userPrompt location =
     (case sv_complete sv userPrompt location of
        None \<Rightarrow> Inl FailedToGenerateItinerary
      | Some aiResponse \<Rightarrow> Inr (parseItineraryResponse (sv_jsonParse sv) aiResponse))"

section \<open>Itinerary generation (controllers/itineraryController.js)\<close>

text \<open>ASCII \<open>toLowerCase\<close> and \<open>includes\<close> (here \<open>str_includes\<close>).\<close>

definition lowerChar :: "char \<Rightarrow> char" where
  "lowerChar c =
     (case map_of (zip ''ABCDEFGHIJKLMNOPQRSTUVWXYZ'' ''abcdefghijklmnopqrstuvwxyz'') c of
        None \<Rightarrow> c
      | Some l \<Rightarrow> l)"

definition toLowerCase :: "string \<Rightarrow> string" where
  "toLowerCase s = map lowerChar s"

fun startsWith :: "string \<Rightarrow> string \<Rightarrow> bool" where
  "startsWith s [] = True"
| "startsWith [] (c # cs) = False"
| "startsWith (d # ds) (c # cs) = (d = c \<and> startsWith ds cs)"

fun str_includes :: "string \<Rightarrow> string \<Rightarrow> bool" where
  "str_includes [] t = (t = [])"
| "str_includes (c # cs) t = (startsWith (c # cs) t \<or> str_includes cs t)"

text \<open>Decimal rendering of an array index inside a template literal.\<close>

definition digit :: "nat \<Rightarrow> char" where
  "digit n = ''0123456789'' ! (n mod 10)"

function showNat :: "nat \<Rightarrow> string" where
  "showNat n = (if n < 10 then [digit n] else showNat (n div 10) @ [digit n])"
  by pat_completeness auto
termination
  by (relation "measure id") auto

text \<open>\<open>split(',')\<close> and \<open>join(',')\<close>.\<close>

fun splitComma :: "string \<Rightarrow> string list" where
  "splitComma [] = [[]]"
| "splitComma (c # cs) =
     (if c = CHR '','' then [] # splitComma cs
      else (case splitComma cs of
              [] \<Rightarrow> [[c]]
            | w # ws \<Rightarrow> (c # w) # ws))"

fun joinComma :: "string list \<Rightarrow> string" where
  "joinComma [] = []"
| "joinComma [w] = w"
| "joinComma (w # v # ws) = w @ '','' @ joinComma (v # ws)"

text \<open>
  The user document: the coordinates are kept in the decimal form in which \<open>join\<close> renders
  them.
\<close>

record user_doc =
  user_id :: objectId
  user_coordinates :: "string list option"
  user_city :: "string option"
  user_country :: "string option"
  points :: int

record db =
  itineraries :: collection
  placeCache :: cache
  users :: "user_doc list"

definition findById :: "objectId \<Rightarrow> user_doc list \<Rightarrow> user_doc option" where
  "findById uid us = find (\<lambda>u. user_id u = uid) us"

text \<open>\<open>addPoints\<close> followed by \<open>save\<close>, on the stored user documents.\<close>

definition addPoints :: "int \<Rightarrow> user_doc \<Rightarrow> user_doc list \<Rightarrow> user_doc list" where
  "addPoints n u us =
     map (\<lambda>v. if user_id v = user_id u then u\<lparr>points := points u + n\<rparr> else v) us"

record generate_body =
  prompt :: "string option"
  location :: "string option"

text \<open>\<open>location || user.location?.coordinates?.join(',')\<close>, \<open>None\<close> when the result is falsy.\<close>

definition searchLocationOf :: "generate_body \<Rightarrow> user_doc \<Rightarrow> string option" where
  "searchLocationOf body u =
     (if truthy (location body) then location body
      else (case user_coordinates u of
              None \<Rightarrow> None
            | Some cs \<Rightarrow> if joinComma cs = [] then None else Some (joinComma cs)))"

text \<open>
  The object that the \<open>map\<close> callback returns for one stub: the keys of a place entry and
  \<open>details\<close>, which is not in the schema and is dropped when the entry is cast.
\<close>

record resolved_place = place_data +
  details :: "formatted_place option"

definition orOption :: "string option \<Rightarrow> string option \<Rightarrow> string option" where
  "orOption a b = (if truthy a then a else b)"

definition orDuration :: "int option \<Rightarrow> int" where
  "orDuration m = (case m of None \<Rightarrow> 60 | Some v \<Rightarrow> if v = 0 then 60 else v)"

definition placeholderId :: "nat \<Rightarrow> string" where
  "placeholderId index = ''placeholder-'' @ showNat index"

definition placeholderPlace :: "nat \<Rightarrow> stub \<Rightarrow> resolved_place" where
  "placeholderPlace index place =
     \<lparr>pd_placeId = placeholderId index,
      pd_name = stub_name place,
      pd_category = stub_category place,
      pd_order = int index + 1,
      pd_estimatedDuration = Some (orDuration (stub_estimatedDuration place)),
      pd_notes = Some (orString (stub_notes place) ''''),
      pd_isVisited = None,
      pd_rating = None,
      details = None\<rparr>"

text \<open>
  The predicate of \<open>searchResults.find\<close>. Calling \<open>toLowerCase\<close> on an absent name or
  category throws a TypeError; the category operands are evaluated only when the names
  do not match.
\<close>

definition isMatch :: "stub \<Rightarrow> formatted_place \<Rightarrow> error + bool" where
  "isMatch place result =
     (case fp_name result of
        None \<Rightarrow> Inl TypeError
      | Some resultName \<Rightarrow>
          (case stub_name place of
             None \<Rightarrow> Inl TypeError
           | Some placeName \<Rightarrow>
               if str_includes (toLowerCase resultName) (toLowerCase placeName) then Inr True
               else (case fp_category result of
                       None \<Rightarrow> Inl TypeError
                     | Some resultCategory \<Rightarrow>
                         (case stub_category place of
                            None \<Rightarrow> Inl TypeError
                          | Some placeCategory \<Rightarrow>
                              Inr (str_includes (toLowerCase resultCategory)
                                     (toLowerCase placeCategory))))))"

fun findBestMatch :: "stub \<Rightarrow> formatted_place list \<Rightarrow> error + formatted_place option" where
  "findBestMatch place [] = Inr None"
| "findBestMatch place (result # rest) =
     (case isMatch place result of
        Inl e \<Rightarrow> Inl e
      | Inr True \<Rightarrow> Inr (Some result)
      | Inr False \<Rightarrow> findBestMatch place rest)"

definition matchedPlace :: "nat \<Rightarrow> stub \<Rightarrow> formatted_place option \<Rightarrow> resolved_place" where
  "matchedPlace index place bestMatch =
     \<lparr>pd_placeId = (case bestMatch of
                      None \<Rightarrow> placeholderId index
                    | Some m \<Rightarrow> orString (fp_id m) (placeholderId index)),
      pd_name = (case bestMatch of
                   None \<Rightarrow> stub_name place
                 | Some m \<Rightarrow> orOption (fp_name m) (stub_name place)),
      pd_category = (case bestMatch of
                       None \<Rightarrow> stub_category place
                     | Some m \<Rightarrow> orOption (fp_category m) (stub_category place)),
      pd_order = int index + 1,
      pd_estimatedDuration = Some (orDuration (stub_estimatedDuration place)),
      pd_notes = Some (orString (stub_notes place) ''''),
      pd_isVisited = None,
      pd_rating = None,
      details = bestMatch\<rparr>"

text \<open>
  The body of the \<open>map\<close> callback: the \<open>try\<close> block searches and matches, the \<open>catch\<close> block
  returns the placeholder for whatever was thrown.
\<close>

definition resolvePlace ::
  "services \<Rightarrow> string \<Rightarrow> nat \<Rightarrow> stub \<Rightarrow> cache \<Rightarrow> resolved_place \<times> cache" where
  "resolvePlace sv searchLocation index place c =
     (case searchPlaces (sv_client sv) (sv_storeUp sv)
             \<lparr>query = stub_name place, near = None, ll = Some searchLocation,
              radius = Some 5000, categories = None, limit = Some 5, sortMode = None\<rparr> c of
        (Inl e, c') \<Rightarrow> (placeholderPlace index place, c')
      | (Inr searchResults, c') \<Rightarrow>
          (case findBestMatch place searchResults of
             Inl e \<Rightarrow> (placeholderPlace index place, c')
           | Inr bestMatch \<Rightarrow> (matchedPlace index place bestMatch, c')))"

text \<open>
  \<open>Promise.all(places.map(async (place, index) => ...))\<close>: one result per stub, in the order
  of the stubs. The searches are run here in index order; their results do not depend on
  the cache.
\<close>

fun resolvePlaces ::
  "services \<Rightarrow> string \<Rightarrow> nat \<Rightarrow> stub list \<Rightarrow> cache \<Rightarrow> resolved_place list \<times> cache" where
  "resolvePlaces sv searchLocation index [] c = ([], c)"
| "resolvePlaces sv searchLocation index (place # rest) c =
     (case resolvePlace sv searchLocation index place c of
        (r, c') \<Rightarrow>
          (case resolvePlaces sv searchLocation (Suc index) rest c' of
             (rs, c'') \<Rightarrow> (r # rs, c'')))"

text \<open>
  The document that \<open>Itinerary.create\<close> builds from the controller's object: schema defaults
  for absent keys, \<open>trim\<close> on the trimmed string fields, the places cast to entries.
\<close>

definition newItinerary ::
  "objectId \<Rightarrow> objectId \<Rightarrow> user_doc \<Rightarrow> string \<Rightarrow> string \<Rightarrow> skeleton \<Rightarrow> resolved_place list
     \<Rightarrow> itinerary" where
  "newItinerary nid uid u userPrompt searchLocation sk itineraryPlaces =
     \<lparr>itin_id = nid,
      user = uid,
      title = (case sk_title sk of None \<Rightarrow> [] | Some t \<Rightarrow> trim t),
      description = map_option trim (sk_description sk),
      itype = withDefault ''custom'' (sk_type sk),
      mood = withDefault ''relaxed'' (sk_mood sk),
      purpose = withDefault ''explore'' (sk_purpose sk),
      coordinates = splitComma searchLocation,
      city = user_city u,
      country = user_country u,
      places = map castPlace itineraryPlaces,
      totalDuration = withDefault 0 (sk_totalDuration sk),
      totalDistance = 0,
      estimatedCost = withDefault 0 (sk_estimatedCost sk),
      tags = (case sk_tags sk of None \<Rightarrow> [] | Some ts \<Rightarrow> map trim ts),
      isPublic = False,
      isCompleted = False,
      completedAt = None,
      aiGenerated = True,
      aiPrompt = Some userPrompt,
      likes = [],
      shares = 0\<rparr>"

text \<open>
  \<open>generateItinerary\<close>. A missing user document makes \<open>user.location\<close> throw; a skeleton
  without a \<open>places\<close> array makes \<open>.map\<close> throw; a document that fails validation makes
  \<open>Itinerary.create\<close> reject. The searches have written to the place cache by then.
\<close>

definition generateItinerary :: "services \<Rightarrow> objectId \<Rightarrow> generate_body \<Rightarrow> db \<Rightarrow> response \<times> db" where
  "generateItinerary sv uid body d =
     (case prompt body of
        None \<Rightarrow> (Json 400 False ''Prompt is required'' None, d)
      | Some userPrompt \<Rightarrow>
     if userPrompt = [] then (Json 400 False ''Prompt is required'' None, d)
     else
     (case findById uid (users d) of
        None \<Rightarrow> (Thrown TypeError, d)
      | Some u \<Rightarrow>
     (case searchLocationOf body u of
        None \<Rightarrow> (Json 400 False ''Location is required for itinerary generation'' None, d)
      | Some searchLocation \<Rightarrow>
     (case openai_generateItinerary sv userPrompt searchLocation of
        Inl e \<Rightarrow> (Thrown e, d)
      | Inr (AiFailure err) \<Rightarrow>
          (Json 500 False (orString (Some err) ''Failed to generate itinerary'') None, d)
      | Inr (AiSuccess sk) \<Rightarrow>
     (case sk_places sk of
        None \<Rightarrow> (Thrown TypeError, d)
      | Some stubs \<Rightarrow>
     (case resolvePlaces sv searchLocation 0 stubs (placeCache d) of
        (itineraryPlaces, c') \<Rightarrow>
          (let doc = newItinerary (sv_newId sv) uid u userPrompt searchLocation sk itineraryPlaces
           in if sv_valid sv doc
              then (Json 200 True ''Itinerary generated successfully'' (Some doc),
                    d\<lparr>itineraries := itineraries d @ [doc],
                      placeCache := c',
                      users := addPoints 15 u (users d)\<rparr>)
              else (Thrown ValidationError, d\<lparr>placeCache := c'\<rparr>))))))))"

text \<open>
  The selection rule in the words of the specification: the first result whose name
  contains the stub's name or whose category contains the stub's category, ignoring case.
  An absent name or category contains nothing.
\<close>

definition containsIgnoringCase :: "string option \<Rightarrow> string option \<Rightarrow> bool" where
  "containsIgnoringCase a b =
     (case (a, b) of
        (Some s, Some t) \<Rightarrow> str_includes (toLowerCase s) (toLowerCase t)
      | _ \<Rightarrow> False)"

definition spec_bestMatch :: "stub \<Rightarrow> formatted_place list \<Rightarrow> formatted_place option" where
  "spec_bestMatch place searchResults =
     find (\<lambda>result. containsIgnoringCase (fp_name result) (stub_name place)
                   \<or> containsIgnoringCase (fp_category result) (stub_category place))
       searchResults"

section \<open>Popular itineraries (models/Itinerary.js, \<open>findPopular\<close>)\<close>

text \<open>
  The query is \<open>find({ isPublic: true }).sort({ 'likes.length': -1, shares: -1 }).limit(limit)\<close>
  and the database evaluates it on the stored documents. A sort key is a path into the
  document: \<open>likes.length\<close> is the key \<open>length\<close> of the sub-documents of the array \<open>likes\<close>.
  A stored like holds \<open>user\<close> and \<open>likedAt\<close> (and its own \<open>_id\<close>, not kept in this model); the
  \<open>likeCount\<close> virtual is not stored. A missing key reads as null, which sorts below every
  number, ObjectId and date; an array path sorts, in descending order, by its greatest
  value.
\<close>

datatype bson = BNull | BNumber int | BObjectId string | BDate date

fun bsonRank :: "bson \<Rightarrow> nat" where
  "bsonRank BNull = 0"
| "bsonRank (BNumber n) = 1"
| "bsonRank (BObjectId s) = 2"
| "bsonRank (BDate t) = 3"

fun stringLess :: "string \<Rightarrow> string \<Rightarrow> bool" where
  "stringLess [] [] = False"
| "stringLess [] (d # ds) = True"
| "stringLess (c # cs) [] = False"
| "stringLess (c # cs) (d # ds) =
     ((of_char c :: nat) < of_char d \<or> (c = d \<and> stringLess cs ds))"

fun bsonLess :: "bson \<Rightarrow> bson \<Rightarrow> bool" where
  "bsonLess (BNumber a) (BNumber b) = (a < b)"
| "bsonLess (BObjectId a) (BObjectId b) = stringLess a b"
| "bsonLess (BDate a) (BDate b) = (a < b)"
| "bsonLess x y = (bsonRank x < bsonRank y)"

definition likeDocument :: "like_entry \<Rightarrow> (string \<times> bson) list" where
  "likeDocument l = [(''user'', BObjectId (like_user l)), (''likedAt'', BDate (likedAt l))]"

definition likesPath :: "string \<Rightarrow> itinerary \<Rightarrow> bson list" where
  "likesPath key d =
     map (\<lambda>l. case map_of (likeDocument l) key of None \<Rightarrow> BNull | Some v \<Rightarrow> v) (likes d)"

definition descendingKey :: "bson list \<Rightarrow> bson" where
  "descendingKey vs = fold (\<lambda>v m. if bsonLess m v then v else m) vs BNull"

text \<open>\<open>a\<close> is sorted before \<open>b\<close> by \<open>{ 'likes.length': -1, shares: -1 }\<close>.\<close>

definition popularBefore :: "itinerary \<Rightarrow> itinerary \<Rightarrow> bool" where
  "popularBefore a b =
     (let ka = descendingKey (likesPath ''length'' a);
          kb = descendingKey (likesPath ''length'' b)
      in bsonLess kb ka \<or> (ka = kb \<and> shares b < shares a))"

text \<open>
  Documents with equal keys are kept in their stored order (the database leaves their
  order open). \<open>limit(0)\<close> means no limit.
\<close>

fun insertSorted :: "('a \<Rightarrow> 'a \<Rightarrow> bool) \<Rightarrow> 'a \<Rightarrow> 'a list \<Rightarrow> 'a list" where
  "insertSorted prior x [] = [x]"
| "insertSorted prior x (y # ys) =
     (if prior y x then y # insertSorted prior x ys else x # y # ys)"

definition sortDocs :: "('a \<Rightarrow> 'a \<Rightarrow> bool) \<Rightarrow> 'a list \<Rightarrow> 'a list" where
  "sortDocs prior xs = foldr (insertSorted prior) xs []"

definition limitDocs :: "nat \<Rightarrow> 'a list \<Rightarrow> 'a list" where
  "limitDocs n xs = (if n = 0 then xs else take n xs)"

text \<open>\<open>findPopular(limit = 10)\<close>; \<open>populate\<close> only expands the user references.\<close>

definition findPopular :: "nat option \<Rightarrow> collection \<Rightarrow> itinerary list" where
  "findPopular lmt coll =
     limitDocs (withDefault 10 lmt) (sortDocs popularBefore (filter isPublic coll))"

text \<open>
  The order in the words of the specification: more likes first, and among equal like
  counts more shares first.
\<close>

definition spec_popularBefore :: "itinerary \<Rightarrow> itinerary \<Rightarrow> bool" where
  "spec_popularBefore a b =
     (length (likes b) < length (likes a)
      \<or> (length (likes a) = length (likes b) \<and> shares b < shares a))"

section \<open>Sample documents for the concrete evaluations\<close>

definition cafeA :: place_entry where
  "cafeA = \<lparr>placeId = ''cafe-a'', name = Some ''Cafe A'', category = Some ''Cafe'', order = 1,
            estimatedDuration = 60, place_notes = None, isVisited = False, rating = None\<rparr>"

definition parkB :: place_entry where
  "parkB = \<lparr>placeId = ''park-b'', name = Some ''Park B'', category = Some ''Park'', order = 2,
            estimatedDuration = 90, place_notes = None, isVisited = False, rating = None\<rparr>"

definition museumC :: place_data where
  "museumC = \<lparr>pd_placeId = ''museum-c'', pd_name = Some ''Museum C'', pd_category = Some ''Museum'',
              pd_order = 1, pd_estimatedDuration = Some 120, pd_notes = None,
              pd_isVisited = None, pd_rating = None\<rparr>"

definition barD :: place_data where
  "barD = \<lparr>pd_placeId = ''bar-d'', pd_name = Some ''Bar D'', pd_category = Some ''Bar'',
           pd_order = 2, pd_estimatedDuration = None, pd_notes = None,
           pd_isVisited = None, pd_rating = None\<rparr>"

definition dayOut :: itinerary where
  "dayOut = \<lparr>itin_id = ''it-1'', user = ''alice'', title = ''Day out'', description = None,
             itype = ''custom'', mood = ''relaxed'', purpose = ''explore'',
             coordinates = [''-122.4'', ''37.8''], city = None, country = None,
             places = [cafeA, parkB], totalDuration = 150, totalDistance = 0, estimatedCost = 0,
             tags = [], isPublic = False, isCompleted = False, completedAt = None,
             aiGenerated = False, aiPrompt = None, likes = [], shares = 0\<rparr>"

definition replacePlaces :: update_body where
  "replacePlaces = \<lparr>b_title = None, b_description = None, b_places = Some [museumC, barD],
                    b_isPublic = None\<rparr>"

definition visitThenAdd :: "itin_op list" where
  "visitThenAdd = [MarkPlaceVisited 1 ''cafe-a'' None, MarkPlaceVisited 2 ''park-b'' (Some 5),
                   AddPlace museumC]"

definition addRemoveAdd :: "itin_op list" where
  "addRemoveAdd = [AddPlace museumC, RemovePlace ''cafe-a'', AddPlace barD]"

definition likedByTwo :: itinerary where
  "likedByTwo = dayOut\<lparr>likes := [\<lparr>like_user = ''bob'', likedAt = 10\<rparr>,
                                 \<lparr>like_user = ''carol'', likedAt = 20\<rparr>]\<rparr>"

definition teaHouse :: raw_place where
  "teaHouse = \<lparr>fsq_id = ''fsq-tea'', raw_name = Some ''Tea House'', raw_description = None,
               raw_category = None, raw_categories = Some [''Tea Room''], raw_price = None,
               raw_rating = Some 8, raw_stats = None, raw_popularity = None\<rparr>"

definition cafeLuna :: raw_place where
  "cafeLuna = \<lparr>fsq_id = ''fsq-luna'', raw_name = Some ''Cafe Luna'', raw_description = None,
               raw_category = None, raw_categories = Some [''Coffee Shop''], raw_price = None,
               raw_rating = Some 9, raw_stats = None, raw_popularity = None\<rparr>"

definition answering :: provider where
  "answering = (\<lambda>request. Responded (Some [teaHouse, cafeLuna]))"

definition rejecting :: provider where
  "rejecting = (\<lambda>request. Rejected)"

definition nearCafes :: search_params where
  "nearCafes = \<lparr>query = Some ''Cafe'', near = None, ll = Some ''-122.4,37.8'', radius = Some 5000,
                categories = None, limit = Some 5, sortMode = None\<rparr>"

definition busyPlace :: place where
  "busyPlace = \<lparr>foursquareId = ''fsq-1'', place_name = Some ''Busy'', place_description = '''',
                place_category = ''Bar'', place_categories = [], place_price = 2,
                place_rating = Some 8,
                stats = \<lparr>totalPhotos = Some 5, totalTips = None, totalCheckins = Some 10\<rparr>,
                popularity = 0\<rparr>"

definition otherPlace :: place where
  "otherPlace = \<lparr>foursquareId = ''fsq-2'', place_name = Some ''Other'', place_description = '''',
                 place_category = ''Cafe'', place_categories = [], place_price = 1,
                 place_rating = Some 8,
                 stats = \<lparr>totalPhotos = Some 5, totalTips = None, totalCheckins = Some 10\<rparr>,
                 popularity = 77\<rparr>"

definition cafeStub :: stub where
  "cafeStub = \<lparr>stub_name = Some ''Cafe'', stub_category = Some ''coffee'',
               stub_description = None, stub_estimatedDuration = Some 45, stub_notes = None\<rparr>"

definition parkStub :: stub where
  "parkStub = \<lparr>stub_name = Some ''Park'', stub_category = Some ''outdoors'',
               stub_description = None, stub_estimatedDuration = None, stub_notes = None\<rparr>"

definition eveningPlan :: skeleton where
  "eveningPlan = \<lparr>sk_title = Some ''Evening'', sk_description = None, sk_type = Some ''evening'',
                  sk_mood = None, sk_purpose = None, sk_places = Some [cafeStub, parkStub],
                  sk_totalDuration = Some 300, sk_estimatedCost = Some 40, sk_tags = None\<rparr>"

definition eveningReply :: string where
  \<open>eveningReply = ''{"title":"Evening","type":"evening","places":[],"totalDuration":300}''\<close>

text \<open>A stand-in for \<open>JSON.parse\<close> that knows one reply and rejects every other text.\<close>

definition parseKnown :: "string \<Rightarrow> skeleton option" where
  "parseKnown s = (if s = eveningReply then Some eveningPlan else None)"

definition planner :: services where
  "planner = \<lparr>sv_complete = (\<lambda>userPrompt searchLocation. Some eveningReply),
              sv_jsonParse = parseKnown, sv_client = answering, sv_storeUp = True,
              sv_newId = ''it-9'', sv_valid = schemaValid\<rparr>"

definition chatty :: services where
  "chatty = planner\<lparr>sv_complete := (\<lambda>userPrompt searchLocation. Some ''Sure! Here is a plan.'')\<rparr>"

definition alice :: user_doc where
  "alice = \<lparr>user_id = ''alice'', user_coordinates = Some [''-122.4'', ''37.8''],
            user_city = None, user_country = None, points = 0\<rparr>"

definition store :: db where
  "store = \<lparr>itineraries = [dayOut], placeCache = Map.empty, users = [alice]\<rparr>"

definition request :: generate_body where
  "request = \<lparr>prompt = Some ''a relaxed evening'', location = None\<rparr>"

definition eveningItinerary :: itinerary where
  "eveningItinerary =
     newItinerary ''it-9'' ''alice'' alice ''a relaxed evening'' ''-122.4,37.8'' eveningPlan
       [placeholderPlace 0 cafeStub, placeholderPlace 1 parkStub]"

definition wellLiked :: itinerary where
  "wellLiked = likedByTwo\<lparr>itin_id := ''it-2'', isPublic := True, shares := 0\<rparr>"

definition wellShared :: itinerary where
  "wellShared = dayOut\<lparr>itin_id := ''it-3'', isPublic := True, shares := 5\<rparr>"

section \<open>Properties of the itinerary aggregate\<close>

subsection \<open>Total duration\<close>

lemma foldl_durations:
  "foldl (\<lambda>total place. total + estimatedDuration place) a ps
     = a + sum_list (map estimatedDuration ps)"
  by (induction ps arbitrary: a) auto

lemma totalDuration_updateTotals:
  "totalDuration (updateTotals it) = sum_list (map estimatedDuration (places it))"
  by (simp add: updateTotals_def foldl_durations)

lemma places_updateTotals: "places (updateTotals it) = places it"
  by (simp add: updateTotals_def)

lemma isCompleted_updateTotals: "isCompleted (updateTotals it) = isCompleted it"
  by (simp add: updateTotals_def)

lemma findOne_save:
  "findOne iid uid coll = Some it \<Longrightarrow> itin_id it' = itin_id it \<Longrightarrow> user it' = user it \<Longrightarrow>
   findOne iid uid (save it' coll) = Some it'"
  unfolding findOne_def save_def
  by (induction coll) (auto split: if_splits)

lemma updateFields_ident:
  "itin_id (updateFields body it) = itin_id it \<and> user (updateFields body it) = user it"
  by (simp add: updateFields_def updateTotals_def Let_def split: option.splits)

lemma updateFields_places:
  "b_places body = Some ps \<Longrightarrow> places (updateFields body it) = map castPlace ps"
  by (simp add: updateFields_def updateTotals_def Let_def split: option.splits)

lemma updateFields_total:
  "b_places body = Some ps \<Longrightarrow>
   totalDuration (updateFields body it) = sum_list (map estimatedDuration (map castPlace ps))"
  by (simp add: updateFields_def totalDuration_updateTotals Let_def split: option.splits)

text \<open>
  C3. After \<open>addPlace\<close>, after \<open>removePlace\<close>, and after an update request that carries a
  \<open>places\<close> array (which replaces the whole sub-list and is then stored), the total duration
  of the itinerary is the sum of the estimated durations of the entries of its places list.
\<close>

theorem totalDuration_is_sum_after_mutation:
  "totalDuration (addPlace d it) = sum_list (map estimatedDuration (places (addPlace d it)))
   \<and> totalDuration (removePlace pid it)
       = sum_list (map estimatedDuration (places (removePlace pid it)))
   \<and> (b_places body = Some ps
        \<and> updateItinerary valid uid iid body coll = (Json 200 True msg (Some it'), coll')
      \<longrightarrow> findOne iid uid coll' = Some it'
          \<and> places it' = map castPlace ps
          \<and> totalDuration it' = sum_list (map estimatedDuration (places it')))"
proof (intro conjI impI)
  show "totalDuration (addPlace d it) = sum_list (map estimatedDuration (places (addPlace d it)))"
    by (simp add: addPlace_def totalDuration_updateTotals places_updateTotals)
  show "totalDuration (removePlace pid it)
          = sum_list (map estimatedDuration (places (removePlace pid it)))"
    by (simp add: removePlace_def totalDuration_updateTotals places_updateTotals)
next
  assume a: "b_places body = Some ps
        \<and> updateItinerary valid uid iid body coll = (Json 200 True msg (Some it'), coll')"
  then obtain it where f: "findOne iid uid coll = Some it"
    by (cases "findOne iid uid coll") (auto simp: updateItinerary_def)
  with a have e: "it' = updateFields body it" and c: "coll' = save it' coll"
    by (auto simp: updateItinerary_def Let_def split: if_splits)
  show "findOne iid uid coll' = Some it'"
    using f c e findOne_save updateFields_ident by blast
  show p: "places it' = map castPlace ps"
    using a e updateFields_places by blast
  show "totalDuration it' = sum_list (map estimatedDuration (places it'))"
    using a e p updateFields_total by simp
qed

theorem totalDuration_is_sum_after_mutation_witness:
  "b_places replacePlaces = Some [museumC, barD]
   \<and> updateItinerary schemaValid ''alice'' ''it-1'' replacePlaces [dayOut]
       = (Json 200 True ''Itinerary updated successfully''
            (Some (updateFields replacePlaces dayOut)), [updateFields replacePlaces dayOut])
   \<and> findOne ''it-1'' ''alice'' [updateFields replacePlaces dayOut]
       = Some (updateFields replacePlaces dayOut)
   \<and> places (updateFields replacePlaces dayOut) = map castPlace [museumC, barD]
   \<and> totalDuration (updateFields replacePlaces dayOut) = 180"
proof -
  have v: "schemaValid (updateFields replacePlaces dayOut)"
    by (simp add: schemaValid_def updateFields_def updateTotals_def replacePlaces_def dayOut_def
        castPlace_def museumC_def barD_def)
  have f: "findOne ''it-1'' ''alice'' [dayOut] = Some dayOut"
    by (simp add: findOne_def dayOut_def)
  have w: "save (updateFields replacePlaces dayOut) [dayOut] = [updateFields replacePlaces dayOut]"
    by (simp add: save_def updateFields_ident)
  have b: "b_places replacePlaces = Some [museumC, barD]"
    by (simp add: replacePlaces_def)
  have h: "b_places replacePlaces = Some [museumC, barD]
     \<and> updateItinerary schemaValid ''alice'' ''it-1'' replacePlaces [dayOut]
       = (Json 200 True ''Itinerary updated successfully''
            (Some (updateFields replacePlaces dayOut)), [updateFields replacePlaces dayOut])"
    by (simp add: updateItinerary_def f v w b Let_def)
  have s: "sum_list (map estimatedDuration (map castPlace [museumC, barD])) = 180"
    by (simp add: castPlace_def museumC_def barD_def)
  from totalDuration_is_sum_after_mutation
         [of _ _ _ replacePlaces "[museumC, barD]" schemaValid "''alice''" "''it-1''" "[dayOut]"
            "''Itinerary updated successfully''" "updateFields replacePlaces dayOut"
            "[updateFields replacePlaces dayOut]"]
       h s
  show ?thesis by simp
qed

subsection \<open>Order indices\<close>

lemma maxOrder_Max: "ps \<noteq> [] \<Longrightarrow> maxOrder ps = Max (set (map order ps))"
proof (cases ps)
  case Nil
  assume "ps \<noteq> []"
  with Nil show ?thesis by simp
next
  case (Cons p qs)
  have "Max (set (order p # map order qs)) = fold max (map order qs) (order p)"
    by (rule Max.set_eq_fold)
  with Cons show ?thesis by simp
qed

lemma Max_one_upto: "1 \<le> n \<Longrightarrow> Max {1 .. n::int} = n"
  by (rule Max_eqI) auto

lemma maxOrder_contiguous: "contiguous ps \<Longrightarrow> maxOrder ps = int (length ps)"
proof (cases "ps = []")
  case True
  then show ?thesis by simp
next
  case False
  assume c: "contiguous ps"
  from False have "1 \<le> int (length ps)" by (cases ps) auto
  with c False show ?thesis
    by (simp add: maxOrder_Max contiguous_def Max_one_upto)
qed

lemma order_castPlace: "order (castPlace d) = pd_order d"
  by (simp add: castPlace_def)

lemma contiguous_snoc:
  "contiguous ps \<Longrightarrow> order p = int (length ps) + 1 \<Longrightarrow> contiguous (ps @ [p])"
  unfolding contiguous_def by auto

lemma contiguous_addPlace: "contiguous (places it) \<Longrightarrow> contiguous (places (addPlace d it))"
  by (simp add: addPlace_def updateTotals_def contiguous_snoc maxOrder_contiguous order_castPlace)

lemma map_order_reorder_from:
  "map order (map (\<lambda>(index, place). place\<lparr>order := int index + 1\<rparr>) (enumerate n ps))
     = [int n + 1 .. int n + int (length ps)]"
proof (induction ps arbitrary: n)
  case Nil
  then show ?case by simp
next
  case (Cons p ps)
  have "[int n + 1 .. int n + int (length (p # ps))]
          = (int n + 1) # [int (Suc n) + 1 .. int (Suc n) + int (length ps)]"
    by (subst upto_rec1) (auto simp: add.commute add.left_commute)
  with Cons.IH [of "Suc n"] show ?case by simp
qed

lemma map_order_reorder: "map order (reorder ps) = [1 .. int (length ps)]"
  using map_order_reorder_from [of 0 ps] by (simp add: reorder_def)

lemma length_reorder: "length (reorder ps) = length ps"
  by (simp add: reorder_def)

lemma contiguous_reorder: "contiguous (reorder ps)"
  by (simp add: contiguous_def map_order_reorder length_reorder)

lemma sansOrder_reorder_from:
  "map sansOrder (map (\<lambda>(index, place). place\<lparr>order := int index + 1\<rparr>) (enumerate n ps))
     = map sansOrder ps"
  by (induction ps arbitrary: n) (auto simp: sansOrder_def)

lemma sansOrder_reorder: "map sansOrder (reorder ps) = map sansOrder ps"
  unfolding reorder_def by (rule sansOrder_reorder_from)

lemma places_removePlace:
  "places (removePlace pid it) = reorder (filter (\<lambda>place. placeId place \<noteq> pid) (places it))"
  by (simp add: removePlace_def updateTotals_def)

lemma places_markPlaceVisited:
  "places (markPlaceVisited now pid r it) = markFirst pid r (places it)"
  by (simp add: markPlaceVisited_def Let_def)

lemma map_order_markFirst: "map order (markFirst pid r ps) = map order ps"
  by (induction ps) auto

lemma length_markFirst: "length (markFirst pid r ps) = length ps"
  by (induction ps) auto

lemma contiguous_apply_op: "contiguous (places it) \<Longrightarrow> contiguous (places (apply_op op it))"
proof (cases op)
  case (AddPlace d)
  assume "contiguous (places it)"
  with AddPlace show ?thesis by (simp add: contiguous_addPlace)
next
  case (RemovePlace pid)
  then show ?thesis by (simp add: places_removePlace contiguous_reorder)
next
  case (MarkPlaceVisited now pid r)
  assume "contiguous (places it)"
  with MarkPlaceVisited show ?thesis
    by (simp add: places_markPlaceVisited contiguous_def map_order_markFirst length_markFirst)
qed

lemma contiguous_apply_ops:
  "contiguous (places it) \<Longrightarrow> contiguous (places (apply_ops ops it))"
  unfolding apply_ops_def
  by (induction ops arbitrary: it) (auto simp: contiguous_apply_op)

text \<open>
  C2. If the order indices of the places list are contiguous (no duplicates, exactly 1..N),
  they are contiguous again after any sequence of \<open>addPlace\<close> and \<open>removePlace\<close> calls
  (calls of \<open>markPlaceVisited\<close> may be interleaved). After \<open>removePlace\<close> the indices read
  1, 2, .., N' in list position, and the remaining entries are the entries of the old list
  whose id differs, in their old relative order and unchanged but for the index.
  \<open>addPlace\<close> appends one entry whose index is the current maximum plus one, or 1 for an
  empty list.
\<close>

theorem order_indices_contiguous:
  "(contiguous (places it) \<longrightarrow> contiguous (places (apply_ops ops it)))
   \<and> map order (places (removePlace pid it)) = [1 .. int (length (places (removePlace pid it)))]
   \<and> map sansOrder (places (removePlace pid it))
       = map sansOrder (filter (\<lambda>place. placeId place \<noteq> pid) (places it))
   \<and> places (addPlace d it)
       = places it @ [castPlace (d\<lparr>pd_order := (if places it = [] then 1
                                                  else Max (set (map order (places it))) + 1)\<rparr>)]"
proof (intro conjI impI)
  show "contiguous (places (apply_ops ops it))" if "contiguous (places it)"
    using that by (rule contiguous_apply_ops)
  show "map order (places (removePlace pid it))
          = [1 .. int (length (places (removePlace pid it)))]"
    by (simp add: places_removePlace map_order_reorder length_reorder)
  show "map sansOrder (places (removePlace pid it))
       = map sansOrder (filter (\<lambda>place. placeId place \<noteq> pid) (places it))"
    by (simp add: places_removePlace sansOrder_reorder)
  show "places (addPlace d it)
       = places it @ [castPlace (d\<lparr>pd_order := (if places it = [] then 1
                                                  else Max (set (map order (places it))) + 1)\<rparr>)]"
    by (simp add: addPlace_def updateTotals_def maxOrder_Max)
qed

theorem order_indices_contiguous_witness:
  "contiguous (places dayOut)
   \<and> contiguous (places (apply_ops addRemoveAdd dayOut))
   \<and> map placeId (places (apply_ops addRemoveAdd dayOut)) = [''park-b'', ''museum-c'', ''bar-d'']
   \<and> map order (places (apply_ops addRemoveAdd dayOut)) = [1, 2, 3]"
proof -
  have h: "contiguous (places dayOut)"
    by (simp add: contiguous_def dayOut_def cafeA_def parkB_def set_upto [symmetric] upto.simps
        del: set_upto)
  have e: "map placeId (places (apply_ops addRemoveAdd dayOut)) = [''park-b'', ''museum-c'', ''bar-d'']
     \<and> map order (places (apply_ops addRemoveAdd dayOut)) = [1, 2, 3]"
    by (simp add: apply_ops_def addRemoveAdd_def addPlace_def removePlace_def updateTotals_def
        reorder_def castPlace_def dayOut_def cafeA_def parkB_def museumC_def barD_def
        enumerate_eq_zip upt_rec)
  from order_indices_contiguous [of dayOut addRemoveAdd] h e show ?thesis by simp
qed

subsection \<open>Completion\<close>

lemma isCompleted_markPlaceVisited:
  "isCompleted (markPlaceVisited now pid r it)
     = (isCompleted it \<or> list_all isVisited (markFirst pid r (places it)))"
  by (simp add: markPlaceVisited_def Let_def)

lemma isCompleted_addPlace: "isCompleted (addPlace d it) = isCompleted it"
  by (simp add: addPlace_def updateTotals_def)

lemma isCompleted_removePlace: "isCompleted (removePlace pid it) = isCompleted it"
  by (simp add: removePlace_def updateTotals_def)

lemma isCompleted_apply_op: "isCompleted it \<Longrightarrow> isCompleted (apply_op op it)"
  by (cases op)
     (simp_all add: isCompleted_addPlace isCompleted_removePlace isCompleted_markPlaceVisited)

lemma isCompleted_apply_ops: "isCompleted it \<Longrightarrow> isCompleted (apply_ops ops it)"
  unfolding apply_ops_def
  by (induction ops arbitrary: it) (auto simp: isCompleted_apply_op)

text \<open>
  C1, as stated, fails in two ways. Both places of the sample itinerary are visited, which
  completes it; a third place is added; the next \<open>markPlaceVisited\<close> call leaves the flag
  true although the new place is not visited. And on an itinerary without places \<open>every\<close>
  holds vacuously, so \<open>markPlaceVisited\<close> sets the flag of an empty itinerary (whose
  \<open>completionPercentage\<close> is 0).
\<close>

theorem completion_iff_all_visited_counterexample:
  "\<not> (isCompleted (markPlaceVisited 3 ''cafe-a'' None (apply_ops visitThenAdd dayOut))
       \<longleftrightarrow> places (markPlaceVisited 3 ''cafe-a'' None (apply_ops visitThenAdd dayOut)) \<noteq> []
           \<and> list_all isVisited
                (places (markPlaceVisited 3 ''cafe-a'' None (apply_ops visitThenAdd dayOut))))
   \<and> \<not> (isCompleted (markPlaceVisited 3 ''cafe-a'' None (dayOut\<lparr>places := []\<rparr>))
         \<longleftrightarrow> places (markPlaceVisited 3 ''cafe-a'' None (dayOut\<lparr>places := []\<rparr>)) \<noteq> []
             \<and> list_all isVisited
                  (places (markPlaceVisited 3 ''cafe-a'' None (dayOut\<lparr>places := []\<rparr>))))"
proof (intro conjI)
  show "\<not> (isCompleted (markPlaceVisited 3 ''cafe-a'' None (apply_ops visitThenAdd dayOut))
       \<longleftrightarrow> places (markPlaceVisited 3 ''cafe-a'' None (apply_ops visitThenAdd dayOut)) \<noteq> []
           \<and> list_all isVisited
                (places (markPlaceVisited 3 ''cafe-a'' None (apply_ops visitThenAdd dayOut))))"
    by (simp add: apply_ops_def visitThenAdd_def markPlaceVisited_def addPlace_def
        updateTotals_def castPlace_def dayOut_def cafeA_def parkB_def museumC_def Let_def)
  show "\<not> (isCompleted (markPlaceVisited 3 ''cafe-a'' None (dayOut\<lparr>places := []\<rparr>))
         \<longleftrightarrow> places (markPlaceVisited 3 ''cafe-a'' None (dayOut\<lparr>places := []\<rparr>)) \<noteq> []
             \<and> list_all isVisited
                  (places (markPlaceVisited 3 ''cafe-a'' None (dayOut\<lparr>places := []\<rparr>))))"
    by (simp add: markPlaceVisited_def Let_def)
qed

text \<open>
  C1, amended. For an itinerary with a non-empty places list, immediately after
  \<open>markPlaceVisited\<close> the completion flag is true if and only if it was true before the
  call or every entry's visited flag is now true. Once true, the flag stays true under any
  sequence of \<open>markPlaceVisited\<close>, \<open>removePlace\<close> and \<open>addPlace\<close> calls.
\<close>

theorem completion_one_way:
  "(places it \<noteq> [] \<longrightarrow>
      isCompleted (markPlaceVisited now pid r it)
        = (isCompleted it \<or> list_all isVisited (places (markPlaceVisited now pid r it))))
   \<and> (isCompleted it \<longrightarrow> isCompleted (apply_ops ops it))"
  by (simp add: isCompleted_markPlaceVisited places_markPlaceVisited isCompleted_apply_ops)

theorem completion_one_way_witness:
  "places dayOut \<noteq> []
   \<and> \<not> isCompleted (markPlaceVisited 1 ''cafe-a'' None dayOut)
   \<and> \<not> list_all isVisited (places (markPlaceVisited 1 ''cafe-a'' None dayOut))
   \<and> isCompleted (markPlaceVisited 2 ''park-b'' None (markPlaceVisited 1 ''cafe-a'' None dayOut))
   \<and> isCompleted (apply_ops [RemovePlace ''park-b'', MarkPlaceVisited 3 ''nowhere'' None]
         (markPlaceVisited 2 ''park-b'' None (markPlaceVisited 1 ''cafe-a'' None dayOut)))"
proof -
  have n: "places dayOut \<noteq> []"
    by (simp add: dayOut_def)
  have a: "\<not> isCompleted dayOut
     \<and> \<not> list_all isVisited (places (markPlaceVisited 1 ''cafe-a'' None dayOut))"
    by (simp add: markPlaceVisited_def Let_def dayOut_def cafeA_def parkB_def)
  have c: "isCompleted (markPlaceVisited 2 ''park-b'' None (markPlaceVisited 1 ''cafe-a'' None dayOut))"
    by (simp add: markPlaceVisited_def Let_def dayOut_def cafeA_def parkB_def)
  from completion_one_way [of dayOut 1 "''cafe-a''" None] n a
  have 1: "\<not> isCompleted (markPlaceVisited 1 ''cafe-a'' None dayOut)" by simp
  from completion_one_way
         [of "markPlaceVisited 2 ''park-b'' None (markPlaceVisited 1 ''cafe-a'' None dayOut)"
             _ _ _ "[RemovePlace ''park-b'', MarkPlaceVisited 3 ''nowhere'' None]"] c
  have 2: "isCompleted (apply_ops [RemovePlace ''park-b'', MarkPlaceVisited 3 ''nowhere'' None]
         (markPlaceVisited 2 ''park-b'' None (markPlaceVisited 1 ''cafe-a'' None dayOut)))"
    by simp
  from n a c 1 2 show ?thesis by simp
qed

subsection \<open>Likes\<close>

lemma find_user_None:
  "(find (\<lambda>like. like_user like = u) ls = None) = (u \<notin> set (map like_user ls))"
  by (auto simp: find_None_iff)

lemma likes_toggle_absent:
  "u \<notin> set (map like_user (likes it)) \<Longrightarrow>
   likes (toggleLike now u it) = likes it @ [\<lparr>like_user = u, likedAt = now\<rparr>]"
  using find_user_None [of u "likes it"] by (simp add: toggleLike_def)

lemma likes_toggle_present:
  "u \<in> set (map like_user (likes it)) \<Longrightarrow>
   likes (toggleLike now u it) = filter (\<lambda>like. like_user like \<noteq> u) (likes it)"
  using find_user_None [of u "likes it"] by (auto simp: toggleLike_def split: option.splits)

lemma filter_absent:
  "u \<notin> set (map like_user ls) \<Longrightarrow> filter (\<lambda>like. like_user like \<noteq> u) ls = ls"
  by (induction ls) auto

lemma toggle_twice_absent:
  assumes "u \<notin> set (map like_user (likes it))"
  shows "likes (toggleLike n2 u (toggleLike n1 u it)) = likes it"
proof -
  have 1: "likes (toggleLike n1 u it) = likes it @ [\<lparr>like_user = u, likedAt = n1\<rparr>]"
    using assms by (rule likes_toggle_absent)
  then have "u \<in> set (map like_user (likes (toggleLike n1 u it)))" by simp
  then have "likes (toggleLike n2 u (toggleLike n1 u it))
      = filter (\<lambda>like. like_user like \<noteq> u) (likes (toggleLike n1 u it))"
    by (rule likes_toggle_present)
  with 1 assms show ?thesis by (simp add: filter_absent)
qed

lemma toggle_twice_present:
  assumes "u \<in> set (map like_user (likes it))"
  shows "likes (toggleLike n2 u (toggleLike n1 u it))
          = filter (\<lambda>like. like_user like \<noteq> u) (likes it) @ [\<lparr>like_user = u, likedAt = n2\<rparr>]"
proof -
  have 1: "likes (toggleLike n1 u it) = filter (\<lambda>like. like_user like \<noteq> u) (likes it)"
    using assms by (rule likes_toggle_present)
  then have "u \<notin> set (map like_user (likes (toggleLike n1 u it)))" by auto
  then have "likes (toggleLike n2 u (toggleLike n1 u it))
      = likes (toggleLike n1 u it) @ [\<lparr>like_user = u, likedAt = n2\<rparr>]"
    by (rule likes_toggle_absent)
  with 1 show ?thesis by simp
qed

lemma toggle_at_most_once:
  "length (filter (\<lambda>like. like_user like = u) (likes (toggleLike now u it))) \<le> 1"
proof (cases "u \<in> set (map like_user (likes it))")
  case True
  then show ?thesis by (simp add: likes_toggle_present)
next
  case False
  then have "filter (\<lambda>like. like_user like = u) (likes it) = []"
    by (auto simp: filter_empty_conv)
  with False show ?thesis by (simp add: likes_toggle_absent)
qed

text \<open>
  C9, as stated, fails: bob likes the sample itinerary first and carol second; after bob
  toggles twice his like is the last entry and carries the time of the second call.
\<close>

theorem toggleLike_twice_counterexample:
  "likes (toggleLike 40 ''bob'' (toggleLike 30 ''bob'' likedByTwo)) \<noteq> likes likedByTwo"
  by (simp add: toggleLike_def likedByTwo_def)

text \<open>
  C9, amended. Two successive \<open>toggleLike\<close> calls of the same user leave the set of users
  who like the itinerary unchanged. If the user had no like, the likes list is restored
  exactly. If the user had one, the entries of the user are removed and one new entry of
  the user, dated by the second call, is appended at the end. After each of the two calls
  the user has at most one entry.
\<close>

theorem toggleLike_twice:
  "set (map like_user (likes (toggleLike n2 u (toggleLike n1 u it))))
     = set (map like_user (likes it))
   \<and> (u \<notin> set (map like_user (likes it)) \<longrightarrow>
        likes (toggleLike n2 u (toggleLike n1 u it)) = likes it)
   \<and> (u \<in> set (map like_user (likes it)) \<longrightarrow>
        likes (toggleLike n2 u (toggleLike n1 u it))
          = filter (\<lambda>like. like_user like \<noteq> u) (likes it) @ [\<lparr>like_user = u, likedAt = n2\<rparr>])
   \<and> length (filter (\<lambda>like. like_user like = u) (likes (toggleLike n1 u it))) \<le> 1
   \<and> length (filter (\<lambda>like. like_user like = u)
               (likes (toggleLike n2 u (toggleLike n1 u it)))) \<le> 1"
proof (intro conjI impI)
  show "set (map like_user (likes (toggleLike n2 u (toggleLike n1 u it))))
          = set (map like_user (likes it))"
  proof (cases "u \<in> set (map like_user (likes it))")
    case True
    then show ?thesis by (auto simp: toggle_twice_present)
  next
    case False
    then show ?thesis by (simp add: toggle_twice_absent)
  qed
  show "likes (toggleLike n2 u (toggleLike n1 u it)) = likes it"
    if "u \<notin> set (map like_user (likes it))"
    using that by (rule toggle_twice_absent)
  show "likes (toggleLike n2 u (toggleLike n1 u it))
          = filter (\<lambda>like. like_user like \<noteq> u) (likes it) @ [\<lparr>like_user = u, likedAt = n2\<rparr>]"
    if "u \<in> set (map like_user (likes it))"
    using that by (rule toggle_twice_present)
  show "length (filter (\<lambda>like. like_user like = u) (likes (toggleLike n1 u it))) \<le> 1"
    by (rule toggle_at_most_once)
  show "length (filter (\<lambda>like. like_user like = u)
               (likes (toggleLike n2 u (toggleLike n1 u it)))) \<le> 1"
    by (rule toggle_at_most_once)
qed

theorem toggleLike_twice_witness:
  "''dave'' \<notin> set (map like_user (likes likedByTwo))
   \<and> likes (toggleLike 40 ''dave'' (toggleLike 30 ''dave'' likedByTwo)) = likes likedByTwo
   \<and> ''bob'' \<in> set (map like_user (likes likedByTwo))
   \<and> likes (toggleLike 40 ''bob'' (toggleLike 30 ''bob'' likedByTwo))
       = [\<lparr>like_user = ''carol'', likedAt = 20\<rparr>, \<lparr>like_user = ''bob'', likedAt = 40\<rparr>]"
proof -
  have a: "''dave'' \<notin> set (map like_user (likes likedByTwo))"
    by (simp add: likedByTwo_def)
  have p: "''bob'' \<in> set (map like_user (likes likedByTwo))"
    by (simp add: likedByTwo_def)
  have f: "filter (\<lambda>like. like_user like \<noteq> ''bob'') (likes likedByTwo)
             = [\<lparr>like_user = ''carol'', likedAt = 20\<rparr>]"
    by (simp add: likedByTwo_def)
  from toggleLike_twice [of 40 "''dave''" 30 likedByTwo] a
  have 1: "likes (toggleLike 40 ''dave'' (toggleLike 30 ''dave'' likedByTwo)) = likes likedByTwo"
    by simp
  from toggleLike_twice [of 40 "''bob''" 30 likedByTwo] p f
  have 2: "likes (toggleLike 40 ''bob'' (toggleLike 30 ''bob'' likedByTwo))
       = [\<lparr>like_user = ''carol'', likedAt = 20\<rparr>, \<lparr>like_user = ''bob'', likedAt = 40\<rparr>]"
    by simp
  from a p 1 2 show ?thesis by simp
qed

section \<open>Properties of the place cache and the places gateway\<close>

text \<open>
  C8. The popularity that \<open>updatePopularity\<close> stores is
  0.4 * checkins + 0.3 * tips + 0.2 * photos + 0.1 * rating, with an absent count or rating
  read as 0; so two places that agree on these four inputs receive the same popularity,
  whatever their other fields and their previous popularity are.
\<close>

theorem popularity_formula:
  "popularity (updatePopularity p)
     = 0.4 * orZero (totalCheckins (stats p)) + 0.3 * orZero (totalTips (stats p))
       + 0.2 * orZero (totalPhotos (stats p)) + 0.1 * orZero (place_rating p)
   \<and> (totalCheckins (stats p) = totalCheckins (stats q) \<and> totalTips (stats p) = totalTips (stats q)
        \<and> totalPhotos (stats p) = totalPhotos (stats q) \<and> place_rating p = place_rating q
      \<longrightarrow> popularity (updatePopularity p) = popularity (updatePopularity q))"
  by (simp add: updatePopularity_def Let_def)

theorem popularity_formula_witness:
  "totalCheckins (stats busyPlace) = totalCheckins (stats otherPlace)
   \<and> totalTips (stats busyPlace) = totalTips (stats otherPlace)
   \<and> totalPhotos (stats busyPlace) = totalPhotos (stats otherPlace)
   \<and> place_rating busyPlace = place_rating otherPlace
   \<and> popularity busyPlace \<noteq> popularity otherPlace
   \<and> popularity (updatePopularity busyPlace) = popularity (updatePopularity otherPlace)
   \<and> popularity (updatePopularity busyPlace) = 29 / 5"
proof -
  have h: "totalCheckins (stats busyPlace) = totalCheckins (stats otherPlace)
   \<and> totalTips (stats busyPlace) = totalTips (stats otherPlace)
   \<and> totalPhotos (stats busyPlace) = totalPhotos (stats otherPlace)
   \<and> place_rating busyPlace = place_rating otherPlace
   \<and> popularity busyPlace \<noteq> popularity otherPlace"
    by (simp add: busyPlace_def otherPlace_def)
  have v: "0.4 * orZero (totalCheckins (stats busyPlace))
       + 0.3 * orZero (totalTips (stats busyPlace))
       + 0.2 * orZero (totalPhotos (stats busyPlace))
       + 0.1 * orZero (place_rating busyPlace) = 29 / 5"
    by (simp add: busyPlace_def orZero_def)
  from popularity_formula [of busyPlace otherPlace] h v show ?thesis by simp
qed

text \<open>
  C6. When the provider call of a search rejects or times out, \<open>searchPlaces\<close> throws
  \<open>Error('Failed to search places')\<close> (it does not return a list, empty or not) and the
  place cache is exactly what it was. Conversely, a search that changed the cache had an
  answer of the provider.
\<close>

theorem search_failure_raises_and_keeps_cache:
  "(client (searchParams params) = Rejected \<or> client (searchParams params) = TimedOut
      \<longrightarrow> searchPlaces client storeUp params c = (Inl FailedToSearchPlaces, c))
   \<and> (snd (searchPlaces client storeUp params c) \<noteq> c
      \<longrightarrow> (\<exists>results. client (searchParams params) = Responded results))"
  by (cases "client (searchParams params)") (auto simp: searchPlaces_def)

theorem search_failure_raises_and_keeps_cache_witness:
  "rejecting (searchParams nearCafes) = Rejected
   \<and> searchPlaces rejecting True nearCafes Map.empty = (Inl FailedToSearchPlaces, Map.empty)
   \<and> snd (searchPlaces answering True nearCafes Map.empty) \<noteq> Map.empty
   \<and> answering (searchParams nearCafes) = Responded (Some [teaHouse, cafeLuna])"
proof -
  have r: "rejecting (searchParams nearCafes) = Rejected"
    by (simp add: rejecting_def)
  have a: "snd (searchPlaces answering True nearCafes Map.empty) \<noteq> Map.empty"
    by (simp add: searchPlaces_def answering_def cachePlaces_def cachePlace_def)
  have b: "answering (searchParams nearCafes) = Responded (Some [teaHouse, cafeLuna])"
    by (simp add: answering_def)
  from search_failure_raises_and_keeps_cache [of rejecting nearCafes True Map.empty] r
  have 1: "searchPlaces rejecting True nearCafes Map.empty = (Inl FailedToSearchPlaces, Map.empty)"
    by simp
  from search_failure_raises_and_keeps_cache [of answering nearCafes True Map.empty] a
  have 2: "\<exists>results. answering (searchParams nearCafes) = Responded results"
    by simp
  from r a b 1 2 show ?thesis by simp
qed

section \<open>Properties of itinerary generation\<close>

lemma length_resolvePlaces:
  "length (fst (resolvePlaces sv loc i stubs c)) = length stubs"
proof (induction stubs arbitrary: i c)
  case Nil
  then show ?case by simp
next
  case (Cons place rest)
  obtain r c' where 1: "resolvePlace sv loc i place c = (r, c')"
    by (cases "resolvePlace sv loc i place c")
  obtain rs c'' where 2: "resolvePlaces sv loc (Suc i) rest c' = (rs, c'')"
    by (cases "resolvePlaces sv loc (Suc i) rest c'")
  from Cons.IH [of "Suc i" c'] 2 have "length rs = length rest" by simp
  with 1 2 show ?case by simp
qed

text \<open>What a successful generation went through, and what it stored.\<close>

lemma generateItinerary_success:
  assumes "generateItinerary sv uid body d = (Json 200 True msg (Some it), d')"
  shows "\<exists>p u loc content sk stubs.
           prompt body = Some p \<and> p \<noteq> [] \<and> findById uid (users d) = Some u
           \<and> searchLocationOf body u = Some loc
           \<and> sv_complete sv p loc = Some content \<and> sv_jsonParse sv content = Some sk
           \<and> sk_places sk = Some stubs
           \<and> it = newItinerary (sv_newId sv) uid u p loc sk
                    (fst (resolvePlaces sv loc 0 stubs (placeCache d)))
           \<and> itineraries d' = itineraries d @ [it]"
  using assms
  by (auto simp: generateItinerary_def openai_generateItinerary_def parseItineraryResponse_def
        Let_def orString_def
      split: option.splits if_splits sum.splits ai_response.splits prod.splits)

text \<open>Every other outcome leaves the itinerary collection as it was.\<close>

lemma generateItinerary_other:
  "(\<exists>msg it. fst (generateItinerary sv uid body d) = Json 200 True msg (Some it))
   \<or> itineraries (snd (generateItinerary sv uid body d)) = itineraries d"
  by (auto simp: generateItinerary_def openai_generateItinerary_def parseItineraryResponse_def
        Let_def
      split: option.splits if_splits sum.splits ai_response.splits prod.splits)

lemma generateItinerary_unparseable:
  assumes "prompt body = Some p" "p \<noteq> []" "findById uid (users d) = Some u"
    "searchLocationOf body u = Some loc" "sv_complete sv p loc = Some content"
    "sv_jsonParse sv content = None"
  shows "generateItinerary sv uid body d
           = (Json 500 False ''Failed to generate itinerary'' None, d)"
  using assms
  by (simp add: generateItinerary_def openai_generateItinerary_def parseItineraryResponse_def
      orString_def)

text \<open>The stored places list has one entry per stub of the skeleton.\<close>

lemma generated_places_one_per_stub:
  assumes "generateItinerary sv uid body d = (Json 200 True msg (Some it), d')"
  shows "\<exists>p u loc content sk stubs.
           prompt body = Some p \<and> findById uid (users d) = Some u
           \<and> searchLocationOf body u = Some loc
           \<and> sv_complete sv p loc = Some content \<and> sv_jsonParse sv content = Some sk
           \<and> sk_places sk = Some stubs \<and> length (places it) = length stubs"
proof -
  from generateItinerary_success [OF assms] obtain p u loc content sk stubs where
    h: "prompt body = Some p" "findById uid (users d) = Some u"
       "searchLocationOf body u = Some loc"
       "sv_complete sv p loc = Some content" "sv_jsonParse sv content = Some sk"
       "sk_places sk = Some stubs"
       "it = newItinerary (sv_newId sv) uid u p loc sk
                    (fst (resolvePlaces sv loc 0 stubs (placeCache d)))"
    by blast
  then have "length (places it) = length stubs"
    by (simp add: newItinerary_def length_resolvePlaces)
  with h show ?thesis by blast
qed

text \<open>
  When the stub and every search result carry a name and a category, the match that the
  code finds is the one that the specification describes.
\<close>

lemma findBestMatch_spec:
  assumes "stub_name place \<noteq> None" "stub_category place \<noteq> None"
    and "\<forall>r \<in> set rs. fp_name r \<noteq> None \<and> fp_category r \<noteq> None"
  shows "findBestMatch place rs = Inr (spec_bestMatch place rs)"
  using assms
  by (induction rs)
     (auto simp: spec_bestMatch_def isMatch_def containsIgnoringCase_def split: option.splits)

lemma isMatch_teaHouse:
  "isMatch cafeStub (formatPlace teaHouse) = Inl TypeError
   \<and> isMatch parkStub (formatPlace teaHouse) = Inl TypeError"
  by (simp add: isMatch_def cafeStub_def parkStub_def formatPlace_def teaHouse_def toLowerCase_def
      lowerChar_def)

lemma resolvePlace_planner:
  "fst (resolvePlace planner loc i cafeStub c) = placeholderPlace i cafeStub
   \<and> fst (resolvePlace planner loc i parkStub c) = placeholderPlace i parkStub"
  by (simp add: resolvePlace_def searchPlaces_def planner_def answering_def formatPlaces_def
      isMatch_teaHouse Let_def split: prod.splits)

lemma resolvePlaces_planner:
  "fst (resolvePlaces planner loc 0 [cafeStub, parkStub] c)
     = [placeholderPlace 0 cafeStub, placeholderPlace 1 parkStub]"
proof -
  obtain r1 c1 where 1: "resolvePlace planner loc 0 cafeStub c = (r1, c1)"
    by (cases "resolvePlace planner loc 0 cafeStub c")
  obtain r2 c2 where 2: "resolvePlace planner loc (Suc 0) parkStub c1 = (r2, c2)"
    by (cases "resolvePlace planner loc (Suc 0) parkStub c1")
  from 1 resolvePlace_planner [of loc 0 c] have "r1 = placeholderPlace 0 cafeStub"
    by simp
  moreover from 2 resolvePlace_planner [of loc "Suc 0" c1]
  have "r2 = placeholderPlace 1 parkStub"
    by simp
  ultimately show ?thesis using 1 2 by simp
qed

lemma eveningItinerary_valid: "schemaValid eveningItinerary"
  by (simp add: schemaValid_def eveningItinerary_def newItinerary_def eveningPlan_def trim_def
      isSpace_def withDefault_def castPlace_def placeholderPlace_def placeholderId_def)

lemma planner_path:
  "prompt request = Some ''a relaxed evening''
   \<and> findById ''alice'' (users store) = Some alice
   \<and> searchLocationOf request alice = Some ''-122.4,37.8''
   \<and> sv_complete planner ''a relaxed evening'' ''-122.4,37.8'' = Some eveningReply
   \<and> sv_jsonParse planner eveningReply = Some eveningPlan"
  by (simp add: request_def findById_def store_def alice_def searchLocationOf_def truthy_def
      planner_def parseKnown_def)

lemma generateItinerary_planner:
  "generateItinerary planner ''alice'' request store
     = (Json 200 True ''Itinerary generated successfully'' (Some eveningItinerary),
        snd (generateItinerary planner ''alice'' request store))"
proof -
  obtain rs c' where
    r: "resolvePlaces planner ''-122.4,37.8'' 0 [cafeStub, parkStub] (placeCache store) = (rs, c')"
    by (cases "resolvePlaces planner ''-122.4,37.8'' 0 [cafeStub, parkStub] (placeCache store)")
  with resolvePlaces_planner [of "''-122.4,37.8''" "placeCache store"]
  have rs: "rs = [placeholderPlace 0 cafeStub, placeholderPlace 1 parkStub]"
    by simp
  have p: "sk_places eveningPlan = Some [cafeStub, parkStub]"
    by (simp add: eveningPlan_def)
  have n: "sv_newId planner = ''it-9'' \<and> sv_valid planner = schemaValid"
    by (simp add: planner_def)
  have "fst (generateItinerary planner ''alice'' request store)
     = Json 200 True ''Itinerary generated successfully'' (Some eveningItinerary)"
    using planner_path r rs p n eveningItinerary_valid
    by (simp add: generateItinerary_def openai_generateItinerary_def parseItineraryResponse_def
        eveningItinerary_def Let_def)
  then show ?thesis by (metis prod.collapse)
qed

lemma eveningItinerary_totals:
  "totalDuration eveningItinerary = 300
   \<and> sum_list (map estimatedDuration (places eveningItinerary)) = 105
   \<and> estimatedCost eveningItinerary = 40"
  by (simp add: eveningItinerary_def newItinerary_def eveningPlan_def withDefault_def castPlace_def
      placeholderPlace_def orDuration_def cafeStub_def parkStub_def)

text \<open>
  C4, evaluated where the code leaves the stated rule. The provider answers the search
  for the stub "Cafe" (category "coffee") with "Tea House" and then "Cafe Luna", neither
  with a \<open>category\<close> key. The rule of the specification selects "Cafe Luna", whose name
  contains the stub's name. The code examines "Tea House" first: its name does not match,
  \<open>result.category.toLowerCase()\<close> throws, and the \<open>catch\<close> block returns the placeholder.
\<close>

theorem match_lost_on_missing_category:
  "fst (searchPlaces (sv_client planner) (sv_storeUp planner)
          \<lparr>query = stub_name cafeStub, near = None, ll = Some ''-122.4,37.8'',
           radius = Some 5000, categories = None, limit = Some 5, sortMode = None\<rparr> Map.empty)
     = Inr (formatPlaces [teaHouse, cafeLuna])
   \<and> spec_bestMatch cafeStub (formatPlaces [teaHouse, cafeLuna]) = Some (formatPlace cafeLuna)
   \<and> fst (resolvePlace planner ''-122.4,37.8'' 0 cafeStub Map.empty) = placeholderPlace 0 cafeStub
   \<and> pd_placeId (placeholderPlace 0 cafeStub) = ''placeholder-0''"
proof (intro conjI)
  show "fst (searchPlaces (sv_client planner) (sv_storeUp planner)
          \<lparr>query = stub_name cafeStub, near = None, ll = Some ''-122.4,37.8'',
           radius = Some 5000, categories = None, limit = Some 5, sortMode = None\<rparr> Map.empty)
     = Inr (formatPlaces [teaHouse, cafeLuna])"
    by (simp add: searchPlaces_def planner_def answering_def Let_def)
  show "spec_bestMatch cafeStub (formatPlaces [teaHouse, cafeLuna]) = Some (formatPlace cafeLuna)"
    by (simp add: spec_bestMatch_def containsIgnoringCase_def formatPlaces_def formatPlace_def
        teaHouse_def cafeLuna_def cafeStub_def toLowerCase_def lowerChar_def)
  show "fst (resolvePlace planner ''-122.4,37.8'' 0 cafeStub Map.empty)
          = placeholderPlace 0 cafeStub"
    by (simp add: resolvePlace_planner)
  show "pd_placeId (placeholderPlace 0 cafeStub) = ''placeholder-0''"
    by (simp add: placeholderPlace_def placeholderId_def digit_def)
qed

text \<open>
  C5. On a reply that is not JSON, \<open>parseItineraryResponse\<close> returns the failure result
  (\<open>success: false\<close> with the message) instead of throwing; a generation request whose
  reply is not JSON ends with status 500 and leaves the whole database, the itinerary
  collection included, as it was; and whenever a generation request changes the itinerary
  collection, some reply of the language model was parsed to a skeleton.
\<close>

theorem unparseable_skeleton_creates_nothing:
  "(sv_jsonParse sv content = None \<longrightarrow>
      parseItineraryResponse (sv_jsonParse sv) content = AiFailure ''Failed to generate itinerary'')
   \<and> (prompt body = Some p \<and> p \<noteq> [] \<and> findById uid (users d) = Some u
        \<and> searchLocationOf body u = Some loc \<and> sv_complete sv p loc = Some content
        \<and> sv_jsonParse sv content = None
      \<longrightarrow> generateItinerary sv uid body d
            = (Json 500 False ''Failed to generate itinerary'' None, d))
   \<and> (itineraries (snd (generateItinerary sv uid body d)) \<noteq> itineraries d
      \<longrightarrow> (\<exists>p' loc' content' sk. sv_complete sv p' loc' = Some content'
                                \<and> sv_jsonParse sv content' = Some sk))"
proof (intro conjI impI)
  show "parseItineraryResponse (sv_jsonParse sv) content
          = AiFailure ''Failed to generate itinerary''"
    if "sv_jsonParse sv content = None"
    using that by (simp add: parseItineraryResponse_def)
  show "generateItinerary sv uid body d = (Json 500 False ''Failed to generate itinerary'' None, d)"
    if "prompt body = Some p \<and> p \<noteq> [] \<and> findById uid (users d) = Some u
        \<and> searchLocationOf body u = Some loc \<and> sv_complete sv p loc = Some content
        \<and> sv_jsonParse sv content = None"
    using that generateItinerary_unparseable by blast
  show "\<exists>p' loc' content' sk. sv_complete sv p' loc' = Some content'
                              \<and> sv_jsonParse sv content' = Some sk"
    if c: "itineraries (snd (generateItinerary sv uid body d)) \<noteq> itineraries d"
  proof -
    from c generateItinerary_other [of sv uid body d]
    obtain msg it where "fst (generateItinerary sv uid body d) = Json 200 True msg (Some it)"
      by blast
    then have "generateItinerary sv uid body d
                 = (Json 200 True msg (Some it), snd (generateItinerary sv uid body d))"
      by (metis prod.collapse)
    from generateItinerary_success [OF this] show ?thesis by blast
  qed
qed

theorem unparseable_skeleton_creates_nothing_witness:
  "prompt request = Some ''a relaxed evening'' \<and> ''a relaxed evening'' \<noteq> []
   \<and> findById ''alice'' (users store) = Some alice
   \<and> searchLocationOf request alice = Some ''-122.4,37.8''
   \<and> sv_complete chatty ''a relaxed evening'' ''-122.4,37.8'' = Some ''Sure! Here is a plan.''
   \<and> sv_jsonParse chatty ''Sure! Here is a plan.'' = None
   \<and> parseItineraryResponse (sv_jsonParse chatty) ''Sure! Here is a plan.''
       = AiFailure ''Failed to generate itinerary''
   \<and> generateItinerary chatty ''alice'' request store
       = (Json 500 False ''Failed to generate itinerary'' None, store)
   \<and> itineraries (snd (generateItinerary planner ''alice'' request store)) \<noteq> itineraries store
   \<and> (\<exists>p' loc' content' sk. sv_complete planner p' loc' = Some content'
                             \<and> sv_jsonParse planner content' = Some sk)"
proof -
  have h: "prompt request = Some ''a relaxed evening'' \<and> ''a relaxed evening'' \<noteq> []
   \<and> findById ''alice'' (users store) = Some alice
   \<and> searchLocationOf request alice = Some ''-122.4,37.8''
   \<and> sv_complete chatty ''a relaxed evening'' ''-122.4,37.8'' = Some ''Sure! Here is a plan.''
   \<and> sv_jsonParse chatty ''Sure! Here is a plan.'' = None"
    by (simp add: request_def findById_def store_def alice_def searchLocationOf_def truthy_def
      chatty_def planner_def parseKnown_def eveningReply_def)
  from generateItinerary_success [OF generateItinerary_planner]
  have g: "itineraries (snd (generateItinerary planner ''alice'' request store))
             \<noteq> itineraries store"
    by auto
  from unparseable_skeleton_creates_nothing
         [of chatty "''Sure! Here is a plan.''" request "''a relaxed evening''" "''alice''" store
             alice "''-122.4,37.8''"] h
  have 1: "parseItineraryResponse (sv_jsonParse chatty) ''Sure! Here is a plan.''
       = AiFailure ''Failed to generate itinerary''
   \<and> generateItinerary chatty ''alice'' request store
       = (Json 500 False ''Failed to generate itinerary'' None, store)"
    by simp
  from unparseable_skeleton_creates_nothing [of planner _ request _ "''alice''" store] g
  have 2: "\<exists>p' loc' content' sk. sv_complete planner p' loc' = Some content'
                             \<and> sv_jsonParse planner content' = Some sk"
    by simp
  from h g 1 2 show ?thesis by simp
qed

text \<open>
  C10. The itinerary that a successful generation stores carries the \<open>totalDuration\<close> and the
  \<open>estimatedCost\<close> of the parsed skeleton as they are (the schema default 0 when the skeleton
  has none); the total duration is not recomputed from the entries, and there is a
  successful generation whose stored total duration differs from the sum of the estimated
  durations of its entries.
\<close>

theorem generated_totals_from_skeleton:
  "(prompt body = Some p \<and> findById uid (users d) = Some u \<and> searchLocationOf body u = Some loc
      \<and> sv_complete sv p loc = Some content \<and> sv_jsonParse sv content = Some sk
      \<and> generateItinerary sv uid body d = (Json 200 True msg (Some it), d')
    \<longrightarrow> totalDuration it = withDefault 0 (sk_totalDuration sk)
        \<and> estimatedCost it = withDefault 0 (sk_estimatedCost sk)
        \<and> itineraries d' = itineraries d @ [it])
   \<and> (\<exists>sv uid body d msg it d'.
         generateItinerary sv uid body d = (Json 200 True msg (Some it), d')
         \<and> totalDuration it \<noteq> sum_list (map estimatedDuration (places it)))"
proof (intro conjI impI)
  assume a: "prompt body = Some p \<and> findById uid (users d) = Some u
      \<and> searchLocationOf body u = Some loc
      \<and> sv_complete sv p loc = Some content \<and> sv_jsonParse sv content = Some sk
      \<and> generateItinerary sv uid body d = (Json 200 True msg (Some it), d')"
  then have g: "generateItinerary sv uid body d = (Json 200 True msg (Some it), d')"
    by simp
  from generateItinerary_success [OF g] a
  obtain stubs where
    i: "it = newItinerary (sv_newId sv) uid u p loc sk
                    (fst (resolvePlaces sv loc 0 stubs (placeCache d)))"
    and c: "itineraries d' = itineraries d @ [it]"
    by auto
  show "totalDuration it = withDefault 0 (sk_totalDuration sk)"
    by (simp add: i newItinerary_def)
  show "estimatedCost it = withDefault 0 (sk_estimatedCost sk)"
    by (simp add: i newItinerary_def)
  show "itineraries d' = itineraries d @ [it]"
    by (rule c)
next
  have "totalDuration eveningItinerary
          \<noteq> sum_list (map estimatedDuration (places eveningItinerary))"
    using eveningItinerary_totals by simp
  with generateItinerary_planner
  show "\<exists>sv uid body d msg it d'.
         generateItinerary sv uid body d = (Json 200 True msg (Some it), d')
         \<and> totalDuration it \<noteq> sum_list (map estimatedDuration (places it))"
    by blast
qed

theorem generated_totals_from_skeleton_witness:
  "prompt request = Some ''a relaxed evening''
   \<and> findById ''alice'' (users store) = Some alice
   \<and> searchLocationOf request alice = Some ''-122.4,37.8''
   \<and> sv_complete planner ''a relaxed evening'' ''-122.4,37.8'' = Some eveningReply
   \<and> sv_jsonParse planner eveningReply = Some eveningPlan
   \<and> generateItinerary planner ''alice'' request store
       = (Json 200 True ''Itinerary generated successfully'' (Some eveningItinerary),
          snd (generateItinerary planner ''alice'' request store))
   \<and> sk_totalDuration eveningPlan = Some 300
   \<and> totalDuration eveningItinerary = 300
   \<and> estimatedCost eveningItinerary = 40
   \<and> sum_list (map estimatedDuration (places eveningItinerary)) = 105
   \<and> itineraries (snd (generateItinerary planner ''alice'' request store))
       = [dayOut, eveningItinerary]"
proof -
  have s: "sk_totalDuration eveningPlan = Some 300 \<and> sk_estimatedCost eveningPlan = Some 40
           \<and> itineraries store = [dayOut]"
    by (simp add: eveningPlan_def store_def)
  from generated_totals_from_skeleton
         [of request "''a relaxed evening''" "''alice''" store alice "''-122.4,37.8''" planner
             eveningReply eveningPlan "''Itinerary generated successfully''" eveningItinerary
             "snd (generateItinerary planner ''alice'' request store)"]
       planner_path generateItinerary_planner s eveningItinerary_totals
  show ?thesis by (simp add: withDefault_def)
qed

section \<open>Properties of the popularity query\<close>

text \<open>No like sub-document has a key \<open>length\<close>: the first sort key is null for every itinerary.\<close>

lemma likesPath_length: "likesPath ''length'' d = replicate (length (likes d)) BNull"
  by (simp add: likesPath_def likeDocument_def map_replicate_const)

lemma descendingKey_nulls: "descendingKey (replicate n BNull) = BNull"
  unfolding descendingKey_def by (induction n) auto

lemma likes_length_key: "descendingKey (likesPath ''length'' d) = BNull"
  by (simp add: likesPath_length descendingKey_nulls)

text \<open>So the query orders by the share counter alone.\<close>

lemma popularBefore_shares: "popularBefore a b = (shares b < shares a)"
  by (simp add: popularBefore_def likes_length_key)

lemma set_insertSorted: "set (insertSorted prior x ys) = insert x (set ys)"
  by (induction ys) auto

lemma set_sortDocs: "set (sortDocs prior xs) = set xs"
  unfolding sortDocs_def by (induction xs) (auto simp: set_insertSorted)

lemma findPopular_public: "d \<in> set (findPopular lmt coll) \<Longrightarrow> d \<in> set coll \<and> isPublic d"
  by (auto simp: findPopular_def limitDocs_def set_sortDocs split: if_splits dest: in_set_takeD)

lemma findPopular_limit:
  "lmt \<noteq> Some 0 \<Longrightarrow> length (findPopular lmt coll) \<le> withDefault 10 lmt"
  by (cases lmt) (auto simp: findPopular_def limitDocs_def withDefault_def)

text \<open>
  C7, evaluated where the code leaves the stated order. Two public itineraries are stored:
  one with two likes and no share, one with no like and five shares. By like count the
  first is the more popular; \<open>findPopular\<close> returns the second one first.
\<close>

theorem findPopular_ignores_likes:
  "isPublic wellLiked \<and> isPublic wellShared
   \<and> length (likes wellLiked) = 2 \<and> length (likes wellShared) = 0
   \<and> spec_popularBefore wellLiked wellShared
   \<and> findPopular (Some 10) [wellLiked, wellShared] = [wellShared, wellLiked]"
  by (simp add: findPopular_def limitDocs_def withDefault_def sortDocs_def popularBefore_shares
      spec_popularBefore_def wellLiked_def wellShared_def likedByTwo_def dayOut_def)

end
